theory Spec2Isabelle
  imports Main "HOL-Library.AList"
begin

section \<open>Route naming\<close>

text \<open>
  JavaScript values that are either \<open>undefined\<close> or a string (a locale tag, a regular
  expression's capture group) are \<open>string option\<close>, with \<open>None\<close> for \<open>undefined\<close>.
  The test \<open>!x\<close> on such a value holds for \<open>undefined\<close> and for the empty string.
\<close>

definition falsy :: "string option \<Rightarrow> bool" where
  "falsy x \<longleftrightarrow> x = None \<or> x = Some []"

text \<open>The character class \<open>[a-zA-Z-]\<close> of the locale patterns.\<close>

definition localeChar :: "char \<Rightarrow> bool" where
  "localeChar c \<longleftrightarrow> c \<in> set ''abcdefghijklmnopqrstuvwxyzABCDEFGHIJKLMNOPQRSTUVWXYZ-''"

definition notDot :: "char \<Rightarrow> bool" where
  "notDot c \<longleftrightarrow> c \<noteq> CHR ''.''"

text \<open>
  \<open>getLocaleFromFilename\<close> matches \<open>/\.([a-zA-Z-]+)?\.(mdx?|jsx?|json)$/\<close> and returns
  group 1. The alternatives of group 2 hold no dot and the match ends the name, so the
  second dot of a match is the last dot of the name and what follows it is one of
  \<open>md\<close>, \<open>mdx\<close>, \<open>js\<close>, \<open>jsx\<close>, \<open>json\<close>. Between the two dots stand only characters of
  the class, so the first dot is the character before the longest run of class
  characters that ends at the last dot. An empty run leaves the optional group
  unmatched, and the result is \<open>undefined\<close> as it is when nothing matches.
  The name is read from its end, so the lists below are reversed.
\<close>

definition getLocaleFromFilename :: "string \<Rightarrow> string option" where
  "getLocaleFromFilename name =
     (let r = rev name;
          ext = rev (takeWhile notDot r);
          r1 = dropWhile notDot r
      in if r1 = [] \<or> ext \<notin> set [''md'', ''mdx'', ''js'', ''jsx'', ''json''] then None
         else
           (let r2 = tl r1;
                seg = rev (takeWhile localeChar r2);
                r3 = dropWhile localeChar r2
            in if r3 \<noteq> [] \<and> hd r3 = CHR ''.'' \<and> seg \<noteq> [] then Some seg else None))"

text \<open>
  \<open>removeExtension\<close> matches \<open>/^([^.]+)/\<close>: the characters before the first dot, when
  there is at least one; the empty string otherwise.
\<close>

definition removeExtension :: "string \<Rightarrow> string" where
  "removeExtension name = takeWhile notDot name"

section \<open>The page map\<close>

text \<open>
  Front matter and the content of a meta file are JSON values. An object keeps its
  members in the order of the text.
\<close>

datatype json =
    JNull
  | JBool bool
  | JNum int
  | JStr string
  | JArr "json list"
  | JObj "(string \<times> json) list"

text \<open>
  The three shapes of object that \<open>getFiles\<close> builds: a directory
  \<open>{name, children, route}\<close>, a page \<open>{name, route, frontMatter?, locale}\<close> and a meta file
  \<open>{name, meta, locale}\<close>. Only a directory has \<open>children\<close>, and an array is truthy
  even when empty, so \<open>page.children\<close> tests for a directory.
\<close>

datatype node =
    Directory string string "node list"
  | Page string string "json option" "string option"
  | MetaFile string json "string option"

fun name :: "node \<Rightarrow> string" where
  "name (Directory n r ch) = n"
| "name (Page n r fm l) = n"
| "name (MetaFile n m l) = n"

fun nodeLocale :: "node \<Rightarrow> string option" where
  "nodeLocale (Directory n r ch) = None"
| "nodeLocale (Page n r fm l) = l"
| "nodeLocale (MetaFile n m l) = l"

fun isDirectory :: "node \<Rightarrow> bool" where
  "isDirectory (Directory n r ch) = True"
| "isDirectory (Page n r fm l) = False"
| "isDirectory (MetaFile n m l) = False"

section \<open>The locale fallback filter\<close>

text \<open>
  \<open>fallbackPages\<close> is an object used as a dictionary from page names to \<open>null\<close> or a page.
  It is modelled by the list of its own properties in the order of their creation; the
  value \<open>None\<close> is \<open>null\<close>, and a name with no entry reads as \<open>undefined\<close>. Assigning to an
  existing property keeps its place, assigning to a new one appends it
  (\<^const>\<open>AList.update\<close>).

  The one key for which an object literal is not a dictionary is \<open>__proto__\<close>: reading and
  assigning it reach the prototype accessor. Page maps with a page or meta file of that
  name are outside the model (\<open>plainName\<close> below excludes them).

  \<open>for (const name in fallbackPages)\<close> visits the own properties in the order of
  ECMAScript's OrdinaryOwnPropertyKeys: first the keys that are array indices (the
  canonical decimal numeral of an integer from 0 to 2^32 - 2) in ascending numeric
  order, then the other keys in the order of their creation.
\<close>

type_synonym table = "(string \<times> node option) list"

definition isDigit :: "char \<Rightarrow> bool" where
  "isDigit c \<longleftrightarrow> c \<in> set ''0123456789''"

definition indexValue :: "string \<Rightarrow> int" where
  "indexValue s = foldl (\<lambda>n c. 10 * n + (of_char c - 48)) 0 s"

definition isArrayIndex :: "string \<Rightarrow> bool" where
  "isArrayIndex s \<longleftrightarrow>
     s \<noteq> [] \<and> list_all isDigit s \<and> (s = ''0'' \<or> hd s \<noteq> CHR ''0'') \<and> indexValue s < 4294967295"

definition keyOrder :: "string list \<Rightarrow> string list" where
  "keyOrder ks = sort_key indexValue (filter isArrayIndex ks) @ filter (\<lambda>k. \<not> isArrayIndex k) ks"

definition ownKeys :: "table \<Rightarrow> string list" where
  "ownKeys t = keyOrder (map fst t)"

definition isDefaultLocale :: "string option \<Rightarrow> string option \<Rightarrow> bool" where
  "isDefaultLocale locale defaultLocale \<longleftrightarrow> falsy locale \<or> locale = defaultLocale"

definition localDoesMatch :: "node \<Rightarrow> string option \<Rightarrow> string option \<Rightarrow> bool" where
  "localDoesMatch page locale defaultLocale \<longleftrightarrow>
     (falsy (nodeLocale page) \<and> isDefaultLocale locale defaultLocale) \<or> nodeLocale page = locale"

text \<open>The test of the else branch: \<open>!page.locale || page.locale === defaultLocale\<close>.\<close>

definition canFallback :: "node \<Rightarrow> string option \<Rightarrow> bool" where
  "canFallback page defaultLocale \<longleftrightarrow> falsy (nodeLocale page) \<or> nodeLocale page = defaultLocale"

text \<open>
  One turn of the first loop for a page that is not a directory, on the table alone:
  an exact match stores \<open>null\<close> under the name; another page is stored when the name does
  not read as \<open>null\<close> and the page is locale-less or of the default locale.
\<close>

definition recordPage :: "node \<Rightarrow> string option \<Rightarrow> string option \<Rightarrow> table \<Rightarrow> table" where
  "recordPage page locale defaultLocale fallbackPages =
     (if localDoesMatch page locale defaultLocale then AList.update (name page) None fallbackPages
      else if map_of fallbackPages (name page) \<noteq> Some None \<and> canFallback page defaultLocale
           then AList.update (name page) (Some page) fallbackPages
           else fallbackPages)"

text \<open>The second loop: the truthy values of the table, in the order of its keys.\<close>

definition fallbackList :: "table \<Rightarrow> node list" where
  "fallbackList fallbackPages =
     List.map_filter (\<lambda>k. case map_of fallbackPages k of Some (Some p) \<Rightarrow> Some p | _ \<Rightarrow> None)
       (ownKeys fallbackPages)"

text \<open>
  \<open>filterLoop\<close> is the first loop, with the two variables it updates as a pair;
  \<open>filterRouteLocale\<close> runs it from the empty array and the empty table and appends the
  fallbacks.
\<close>

fun filterRouteLocale :: "node list \<Rightarrow> string option \<Rightarrow> string option \<Rightarrow> node list"
  and filterLoop :: "node list \<Rightarrow> string option \<Rightarrow> string option \<Rightarrow> node list \<times> table \<Rightarrow> node list \<times> table"
where
  "filterRouteLocale pageMap locale defaultLocale =
     (case filterLoop pageMap locale defaultLocale ([], []) of
        (filteredPageMap, fallbackPages) \<Rightarrow> filteredPageMap @ fallbackList fallbackPages)"
| "filterLoop [] locale defaultLocale st = st"
| "filterLoop (Directory n r ch # rest) locale defaultLocale (filteredPageMap, fallbackPages) =
     filterLoop rest locale defaultLocale
       (filteredPageMap @ [Directory n r (filterRouteLocale ch locale defaultLocale)], fallbackPages)"
| "filterLoop (page # rest) locale defaultLocale (filteredPageMap, fallbackPages) =
     filterLoop rest locale defaultLocale
       (if localDoesMatch page locale defaultLocale then filteredPageMap @ [page] else filteredPageMap,
        recordPage page locale defaultLocale fallbackPages)"

subsection \<open>What the two loops compute\<close>

text \<open>
  The definitions of this subsection describe the result of \<open>filterRouteLocale\<close> without
  its loops; the lemmas below prove that they do.

  \<open>pushed\<close> are the nodes the first loop pushes, \<open>refilter\<close> is what it pushes for them:
  a directory with its children filtered, an exact match as it is. \<open>recordAll\<close> is the
  table after the first loop, \<open>fallbacks\<close> the nodes the second loop appends.
\<close>

fun refilter :: "string option \<Rightarrow> string option \<Rightarrow> node \<Rightarrow> node" where
  "refilter locale defaultLocale (Directory n r ch) =
     Directory n r (filterRouteLocale ch locale defaultLocale)"
| "refilter locale defaultLocale page = page"

definition pushed :: "string option \<Rightarrow> string option \<Rightarrow> node \<Rightarrow> bool" where
  "pushed locale defaultLocale page \<longleftrightarrow> isDirectory page \<or> localDoesMatch page locale defaultLocale"

definition recordAll :: "node list \<Rightarrow> string option \<Rightarrow> string option \<Rightarrow> table \<Rightarrow> table" where
  "recordAll pages locale defaultLocale fallbackPages =
     foldl (\<lambda>t p. recordPage p locale defaultLocale t) fallbackPages pages"

definition fallbacks :: "node list \<Rightarrow> string option \<Rightarrow> string option \<Rightarrow> node list" where
  "fallbacks ps L D = fallbackList (recordAll ps L D [])"

text \<open>
  \<open>firstSeen\<close> keeps the first occurrence of every element (\<^const>\<open>remdups\<close> keeps the
  last); \<open>lastOpt\<close> is the last element of a list, if there is one.
\<close>

definition firstSeen :: "'a list \<Rightarrow> 'a list" where
  "firstSeen ks = rev (remdups (rev ks))"

definition lastOpt :: "'a list \<Rightarrow> 'a option" where
  "lastOpt xs = (case rev xs of [] \<Rightarrow> None | x # _ \<Rightarrow> Some x)"

text \<open>
  A page touches the table when it is an exact match or may be a fallback. After the
  pages \<open>ps\<close> the table holds, under a name \<open>n\<close>, \<open>null\<close> when some page of that name is an
  exact match (the name is resolved), and otherwise the last page of that name that may
  be a fallback, if there is one.
\<close>

definition touches :: "string option \<Rightarrow> string option \<Rightarrow> node \<Rightarrow> bool" where
  "touches L D p \<longleftrightarrow> localDoesMatch p L D \<or> canFallback p D"

definition entryOf :: "node list \<Rightarrow> string option \<Rightarrow> string option \<Rightarrow> string \<Rightarrow> node option option" where
  "entryOf ps L D n =
     (if list_ex (\<lambda>p. name p = n \<and> localDoesMatch p L D) ps then Some None
      else map_option Some (lastOpt (filter (\<lambda>p. name p = n \<and> canFallback p D) ps)))"

definition candidateOf :: "node list \<Rightarrow> string option \<Rightarrow> string option \<Rightarrow> string \<Rightarrow> node option" where
  "candidateOf ps L D n = (case entryOf ps L D n of Some (Some p) \<Rightarrow> Some p | _ \<Rightarrow> None)"

text \<open>
  The page maps of the model: no page or meta file, at any depth, is named \<open>__proto__\<close>.
\<close>

fun plainName :: "node \<Rightarrow> bool" where
  "plainName (Directory n r ch) = list_all plainName ch"
| "plainName (Page n r fm l) = (n \<noteq> ''__proto__'')"
| "plainName (MetaFile n m l) = (n \<noteq> ''__proto__'')"

subsection \<open>The filter as the specification words it\<close>

text \<open>
  The specification's description of the filter for the pages of one directory, in its
  own words: an exact match is a node whose locale equals the request locale, or a
  locale-less node when the request locale is the default locale; a fallback candidate
  is a node whose locale is absent or the default locale. \<open>unresolvedNames\<close> are the names
  with a candidate and no exact match, in the order of their first candidate;
  \<open>lastCandidate\<close> is the last candidate of a name.

  \<open>claimedFilter\<close> lists the fallbacks in that order. \<open>amendedFilter\<close> lists them in the
  order in which the table's keys are visited.
\<close>

definition specExact :: "string option \<Rightarrow> string option \<Rightarrow> node \<Rightarrow> bool" where
  "specExact L D p \<longleftrightarrow> nodeLocale p = L \<or> (nodeLocale p = None \<and> L = D)"

definition specCanFallback :: "string option \<Rightarrow> node \<Rightarrow> bool" where
  "specCanFallback D p \<longleftrightarrow> nodeLocale p = None \<or> nodeLocale p = D"

definition unresolvedNames :: "node list \<Rightarrow> string option \<Rightarrow> string option \<Rightarrow> string list" where
  "unresolvedNames xs L D =
     firstSeen (map name (filter (\<lambda>p. specCanFallback D p \<and>
                                        name p \<notin> set (map name (filter (specExact L D) xs))) xs))"

definition lastCandidate :: "node list \<Rightarrow> string option \<Rightarrow> string \<Rightarrow> node option" where
  "lastCandidate xs D n = lastOpt (filter (\<lambda>p. name p = n \<and> specCanFallback D p) xs)"

definition claimedFilter :: "node list \<Rightarrow> string option \<Rightarrow> string option \<Rightarrow> node list" where
  "claimedFilter xs L D =
     filter (specExact L D) xs @ List.map_filter (lastCandidate xs D) (unresolvedNames xs L D)"

definition amendedFilter :: "node list \<Rightarrow> string option \<Rightarrow> string option \<Rightarrow> node list" where
  "amendedFilter xs L D =
     filter (specExact L D) xs @ List.map_filter (lastCandidate xs D) (keyOrder (unresolvedNames xs L D))"

subsection \<open>Sample page maps\<close>

definition samplePageMap :: "node list" where
  "samplePageMap =
     [Page ''about'' ''/about'' None None,
      Page ''index'' ''/'' None (Some ''en''),
      Directory ''docs'' ''/docs''
        [MetaFile ''meta.json'' (JObj [(''intro'', JStr ''Introduction'')]) (Some ''en''),
         Page ''intro'' ''/docs/intro'' None (Some ''en''),
         Page ''intro'' ''/docs/intro'' None (Some ''fr''),
         Page ''404'' ''/docs/404'' None None],
      Page ''index'' ''/'' None (Some ''fr''),
      Page ''404'' ''/404'' None (Some ''en'')]"

definition siblingsA :: "node list" where
  "siblingsA = [Page ''a'' ''/a'' None None, Page ''a'' ''/a'' None (Some ''en''), Page ''a'' ''/a'' None (Some ''fr'')]"

definition siblingsB :: "node list" where
  "siblingsB = [Page ''about'' ''/about'' None None, Page ''404'' ''/404'' None None]"

text \<open>A page before a directory that holds a page of the request locale.\<close>

definition siblingsC :: "node list" where
  "siblingsC =
     [Page ''about'' ''/about'' None None,
      Directory ''docs'' ''/docs'' [Page ''intro'' ''/docs/intro'' None (Some ''fr'')]]"


section \<open>The sibling locale analyzer\<close>

text \<open>
  \<open>analyzeLocalizedEntries\<close> lists the directory of the current file and reads every entry
  whose name matches \<open>filenameRe\<close>. A listing is the list of the entries' names, each with
  the text that reading it returns, or \<open>None\<close> when the read fails; a failed read rejects
  the promise, which is the result \<open>Inl ReadFailure\<close>.
\<close>

datatype failure = ReadFailure

text \<open>
  An element of \<open>filteredFiles\<close> is \<open>{name, locale, ssr, ssg}\<close>; the result is
  \<open>{ssr, ssg, files, defaultIndex}\<close>.
\<close>

datatype variant = Variant (vname: string) (vlocale: "string option") (vssr: bool) (vssg: bool)

record descriptor =
  ssr :: bool
  ssg :: bool
  files :: "variant list"
  defaultIndex :: nat

text \<open>
  The two tests on the content are \<open>/^export .+ getServerSideProps[=| |\(]/m\<close> and the same
  with \<open>getStaticProps\<close>. With the flag \<open>m\<close> the pattern starts at the start of a line, and
  \<open>.\<close> matches no line terminator, so a match lies in one line: the line starts with
  \<open>export\<close> and a space, at least one character follows, then a space and the function's
  name, then one of the characters \<open>=\<close>, \<open>|\<close>, space and \<open>(\<close>. After \<open>export\<close>, the space and
  one more character, the space before the name is at offset 8 or later. Contents are
  byte strings, with the line terminators \<open>\n\<close> and \<open>\r\<close>; the separators U+2028 and U+2029
  are outside the model.
\<close>

definition lineTerminator :: "char \<Rightarrow> bool" where
  "lineTerminator c \<longleftrightarrow> c = CHR 0x0A \<or> c = CHR 0x0D"

fun splitLines :: "string \<Rightarrow> string list" where
  "splitLines [] = [[]]"
| "splitLines (c # cs) =
     (if lineTerminator c then [] # splitLines cs
      else (case splitLines cs of l # ls \<Rightarrow> (c # l) # ls | [] \<Rightarrow> [[c]]))"

fun tails :: "'a list \<Rightarrow> 'a list list" where
  "tails [] = [[]]"
| "tails (x # xs) = (x # xs) # tails xs"

definition startsWith :: "string \<Rightarrow> string \<Rightarrow> bool" where
  "startsWith s p \<longleftrightarrow> take (length p) s = p"

definition exportsLine :: "string \<Rightarrow> string \<Rightarrow> bool" where
  "exportsLine fn l \<longleftrightarrow>
     startsWith l ''export '' \<and>
     list_ex (\<lambda>t. startsWith t ('' '' @ fn) \<and>
                  list_ex (\<lambda>c. startsWith (drop (length fn + 1) t) [c]) ''=| ('')
       (tails (drop 8 l))"

definition exportsFunction :: "string \<Rightarrow> string \<Rightarrow> bool" where
  "exportsFunction fn content \<longleftrightarrow> list_ex (exportsLine fn) (splitLines content)"

text \<open>
  \<open>filenameRe\<close> is compiled at run time from the current file's base name, which is
  not escaped, so the functions below take the compiled pattern's \<open>test\<close> as a parameter.
  \<open>filenameReLiteral\<close> is that test for a base name without pattern characters: the
  name, any character, one or more characters of \<open>[a-zA-Z-]\<close>, any character, and one of
  the extensions \<open>mdx?\<close>, \<open>jsx?\<close>, \<open>tsx?\<close>, \<open>json\<close>.
\<close>

definition filenameReLiteral :: "string \<Rightarrow> string \<Rightarrow> bool" where
  "filenameReLiteral filename fname \<longleftrightarrow>
     list_ex (\<lambda>ext.
        length ext \<le> length fname \<and> drop (length fname - length ext) fname = ext \<and>
        (let body = take (length fname - length ext) fname;
             mid = drop (length filename) body
         in startsWith body filename \<and> 3 \<le> length mid \<and>
            \<not> lineTerminator (hd mid) \<and> \<not> lineTerminator (last mid) \<and>
            list_all localeChar (butlast (tl mid))))
       [''md'', ''mdx'', ''js'', ''jsx'', ''ts'', ''tsx'', ''json'']"

text \<open>
  \<open>analyzeFile\<close> is one turn of the loop for a matching entry that was read: the four
  variables \<open>hasSSR\<close>, \<open>hasSSG\<close>, \<open>filteredFiles\<close> and \<open>defaultIndex\<close> are the fields of the
  descriptor that the loop returns at its end.
\<close>

definition analyzeFile :: "string option \<Rightarrow> string \<Rightarrow> string \<Rightarrow> descriptor \<Rightarrow> descriptor" where
  "analyzeFile defaultLocale fname content d =
     (let locale = getLocaleFromFilename fname;
          exportSSR = exportsFunction ''getServerSideProps'' content;
          exportSSG = exportsFunction ''getStaticProps'' content
      in \<lparr> ssr = ssr d \<or> exportSSR,
           ssg = ssg d \<or> exportSSG,
           files = files d @ [Variant fname locale exportSSR exportSSG],
           defaultIndex = (if locale = defaultLocale then length (files d) else defaultIndex d) \<rparr>)"

fun analyzeLoop :: "(string \<Rightarrow> bool) \<Rightarrow> string option \<Rightarrow> (string \<times> string option) list \<Rightarrow>
    descriptor \<Rightarrow> failure + descriptor" where
  "analyzeLoop filenameRe defaultLocale [] d = Inr d"
| "analyzeLoop filenameRe defaultLocale ((fname, content) # rest) d =
     (if \<not> filenameRe fname then analyzeLoop filenameRe defaultLocale rest d
      else (case content of
              None \<Rightarrow> Inl ReadFailure
            | Some text \<Rightarrow> analyzeLoop filenameRe defaultLocale rest (analyzeFile defaultLocale fname text d)))"

definition analyzeLocalizedEntries ::
    "(string \<Rightarrow> bool) \<Rightarrow> (string \<times> string option) list \<Rightarrow> string option \<Rightarrow> failure + descriptor" where
  "analyzeLocalizedEntries filenameRe listing defaultLocale =
     analyzeLoop filenameRe defaultLocale listing \<lparr> ssr = False, ssg = False, files = [], defaultIndex = 0 \<rparr>"

text \<open>
  For the statement of the result: the entries that match, the variant that the loop
  pushes for a matching entry, and what it means for an index to be the default index
  of a list of variants: the position of the last variant of the default locale, and 0
  when there is none.
\<close>

definition variantOf :: "string \<times> string option \<Rightarrow> variant" where
  "variantOf e =
     Variant (fst e) (getLocaleFromFilename (fst e))
       (exportsFunction ''getServerSideProps'' (the (snd e)))
       (exportsFunction ''getStaticProps'' (the (snd e)))"

definition matched :: "(string \<Rightarrow> bool) \<Rightarrow> (string \<times> string option) list \<Rightarrow> (string \<times> string option) list" where
  "matched filenameRe listing = filter (\<lambda>e. filenameRe (fst e)) listing"

definition isDefaultAt :: "string option \<Rightarrow> variant list \<Rightarrow> nat \<Rightarrow> bool" where
  "isDefaultAt D vs i \<longleftrightarrow>
     (if list_ex (\<lambda>v. vlocale v = D) vs
      then i < length vs \<and> vlocale (vs ! i) = D \<and> \<not> list_ex (\<lambda>v. vlocale v = D) (drop (Suc i) vs)
      else i = 0)"

text \<open>
A directory with three variants of \<open>index\<close>, and an entry that cannot be read.
\<close>

definition sampleListing :: "(string \<times> string option) list" where
  "sampleListing =
     [(''index.fr.mdx'', Some ''# Bonjour''),
      (''other.en.mdx'', None),
      (''index.en.mdx'', Some (''export const getStaticProps = () => ({ props: {} })'' @ [CHR 0x0A] @ ''# Hello'')),
      (''index.de.mdx'', Some (''# Hallo'' @ [CHR 0x0A] @ ''export async function getServerSideProps (context) {}''))]"

section \<open>The locale dispatch module\<close>



definition localeText :: "variant \<Rightarrow> string" where
  "localeText file = (case vlocale file of None \<Rightarrow> ''undefined'' | Some l \<Rightarrow> l)"


definition indexed :: "'a list \<Rightarrow> ('a \<times> nat) list" where
  "indexed xs = zip xs [0..<length xs]"



text \<open>
  Both dispatchers are chains \<open>if (c1) { return r1 } else if (c2) { return r2 } else ... { return r }\<close>,
  one branch for each variant. A branch is kept as the locale tag it compares \<open>locale\<close>
  with, the flag it requires (always true in the chain of \<open>I18NPage\<close>) and the index of
  the variant it returns; \<open>pageBranchText\<close> and \<open>fetchBranchText\<close> are the text of a branch.
\<close>

datatype branch = Branch string bool nat

definition pageBranch :: "variant \<times> nat \<Rightarrow> branch" where
  "pageBranch fi = (case fi of (file, index) \<Rightarrow> Branch (localeText file) True index)"

definition fetchBranch :: "bool \<Rightarrow> variant \<times> nat \<Rightarrow> branch" where
  "fetchBranch anySSG fi =
     (case fi of (file, index) \<Rightarrow> Branch (localeText file) (if anySSG then vssg file else vssr file) index)"



definition pageBranches :: "descriptor \<Rightarrow> branch list" where
  "pageBranches d = map pageBranch (indexed (files d))"

definition fetchBranches :: "descriptor \<Rightarrow> branch list" where
  "fetchBranches d = map (fetchBranch (ssg d)) (indexed (files d))"




text \<open>
  What a chain returns when the module runs with a given \<open>locale\<close>: the return of the first
  branch whose tag is the locale and whose flag is true (\<open>Call\<close> with the index of the
  variant: \<open>Page_i\<close> in \<open>I18NPage\<close>, \<open>page_data_i(context)\<close> in the fetch dispatcher), or
  the final \<open>else\<close> (\<open>Fallthrough\<close>: the variant \<open>defaultIndex\<close> in \<open>I18NPage\<close>,
  \<open>{ props: {} }\<close> in the fetch dispatcher).
\<close>

datatype outcome = Call nat | Fallthrough

fun runChain :: "branch list \<Rightarrow> string option \<Rightarrow> outcome" where
  "runChain [] locale = Fallthrough"
| "runChain (Branch tag b index # rest) locale =
     (if locale = Some tag \<and> b then Call index else runChain rest locale)"

text \<open>
  The variant that \<open>I18NPage\<close> renders for a locale; the fetch kind that the dispatcher
  exports (\<open>getStaticProps\<close> when any variant has it, else \<open>getServerSideProps\<close>); and the
  descriptors whose two flags are the disjunctions over their variants, as the analyzer
  builds them.
\<close>

definition renderedIndex :: "descriptor \<Rightarrow> string option \<Rightarrow> nat" where
  "renderedIndex d locale = (case runChain (pageBranches d) locale of Call i \<Rightarrow> i | Fallthrough \<Rightarrow> defaultIndex d)"

definition resolvedVariant :: "descriptor \<Rightarrow> string option \<Rightarrow> variant option" where
  "resolvedVariant d locale =
     (let i = renderedIndex d locale in if i < length (files d) then Some (files d ! i) else None)"

definition chosenFetch :: "descriptor \<Rightarrow> variant \<Rightarrow> bool" where
  "chosenFetch d file = (if ssg d then vssg file else vssr file)"

definition lacksFetch :: "descriptor \<Rightarrow> variant option \<Rightarrow> bool" where
  "lacksFetch d v = (case v of None \<Rightarrow> True | Some file \<Rightarrow> \<not> chosenFetch d file)"

definition consistent :: "descriptor \<Rightarrow> bool" where
  "consistent d \<longleftrightarrow> ssg d = list_ex vssg (files d) \<and> ssr d = list_ex vssr (files d)"

text \<open>
  The descriptor of a locale variant group: its flags are the disjunctions over its
  variants, and every variant is tagged with its own locale, as the siblings are that
  share a base name and differ in locale.
\<close>

definition variantGroup :: "descriptor \<Rightarrow> bool" where
  "variantGroup d \<longleftrightarrow> consistent d \<and> distinct (map localeText (files d))"

text \<open>
  A directory with two variants of the same locale, outside the variant groups, and
  three sample descriptors.
\<close>

definition duplicateListing :: "(string \<times> string option) list" where
  "duplicateListing =
     [(''index.en.md'', Some ''# Hello''),
      (''index.en.mdx'', Some (''export const getStaticProps = () => ({ props: {} })'' @ [CHR 0x0A] @ ''# Hello''))]"

definition duplicateDescriptor :: descriptor where
  "duplicateDescriptor =
     \<lparr> ssr = False, ssg = True,
       files = [Variant ''index.en.md'' (Some ''en'') False False,
                Variant ''index.en.mdx'' (Some ''en'') False True],
       defaultIndex = 1 \<rparr>"

definition sampleDescriptor :: descriptor where
  "sampleDescriptor =
     \<lparr> ssr = True, ssg = True,
       files = [Variant ''index.fr.mdx'' (Some ''fr'') False False,
                Variant ''index.en.mdx'' (Some ''en'') False True,
                Variant ''index.de.mdx'' (Some ''de'') True False],
       defaultIndex = 1 \<rparr>"


section \<open>The tree builder\<close>

text \<open>
  The content directory is a tree of entries: a directory with its listing, or \<open>None\<close>
  when \<open>readdir\<close> fails on it, and a file with its text, or \<open>None\<close> when \<open>readFile\<close> fails
  on it.
\<close>

datatype entry = DirEntry string "entry list option" | FileEntry string "string option"

text \<open>
  \<open>extension\<close> is \<open>/\.(mdx?|jsx?|tsx?)$/\<close> and \<open>mdxExtension\<close> is \<open>/\.mdx?$/\<close>: the name has
  a dot, and what follows its last dot is one of the extensions.
\<close>

definition afterLastDot :: "string \<Rightarrow> string option" where
  "afterLastDot fname =
     (if list_all notDot fname then None else Some (rev (takeWhile notDot (rev fname))))"

definition extensionTest :: "string \<Rightarrow> bool" where
  "extensionTest fname \<longleftrightarrow>
     (case afterLastDot fname of None \<Rightarrow> False
      | Some ext \<Rightarrow> ext \<in> set [''md'', ''mdx'', ''js'', ''jsx'', ''ts'', ''tsx''])"

definition mdxExtensionTest :: "string \<Rightarrow> bool" where
  "mdxExtensionTest fname \<longleftrightarrow>
     (case afterLastDot fname of None \<Rightarrow> False | Some ext \<Rightarrow> ext \<in> set [''md'', ''mdx''])"

text \<open>
  \<open>metaExtension\<close> is \<open>/meta\.?([a-zA-Z-]+)?\.json/\<close>, without anchors. \<open>metaMatchAt\<close> matches
  it at the start of a text, returning group 1 of the match: after \<open>meta\<close>, either a dot,
  the longest run of class characters and \<open>.json\<close> (the group is the run, or unmatched
  when the run is empty), or, the dot given back, \<open>.json\<close> at once (the group unmatched),
  or, without a dot, a run of class characters that is not empty and \<open>.json\<close>.
  \<open>metaExtensionMatch\<close> is the leftmost match in a name.
\<close>

definition metaMatchAt :: "string \<Rightarrow> string option option" where
  "metaMatchAt s =
     (if \<not> startsWith s ''meta'' then None
      else
        (let rest = drop 4 s in
         if startsWith rest ''.''
         then
           (let run = takeWhile localeChar (tl rest);
                after = dropWhile localeChar (tl rest)
            in if startsWith after ''.json'' then Some (if run = [] then None else Some run)
               else if startsWith rest ''.json'' then Some None
               else None)
         else
           (let run = takeWhile localeChar rest;
                after = dropWhile localeChar rest
            in if run \<noteq> [] \<and> startsWith after ''.json'' then Some (Some run) else None)))"

fun metaExtensionMatch :: "string \<Rightarrow> string option option" where
  "metaExtensionMatch [] = None"
| "metaExtensionMatch (c # cs) =
     (case metaMatchAt (c # cs) of Some g \<Rightarrow> Some g | None \<Rightarrow> metaExtensionMatch cs)"

text \<open>
  \<open>path.join(route, segment)\<close> for a route that is \<open>/\<close> or has no final slash and a
  segment without slash or dot, and \<open>path.resolve(dir, name)\<close> for an absolute directory
  and the name of one of its entries.
\<close>

definition pathJoin :: "string \<Rightarrow> string \<Rightarrow> string" where
  "pathJoin route segment =
     (if segment = [] then route
      else if route = ''/'' then ''/'' @ segment
      else route @ ''/'' @ segment)"

definition pathResolve :: "string \<Rightarrow> string \<Rightarrow> string" where
  "pathResolve dir fname = dir @ ''/'' @ fname"

definition fileRouteOf :: "string \<Rightarrow> string \<Rightarrow> string" where
  "fileRouteOf route fname =
     pathJoin route (if removeExtension fname = ''index'' then [] else removeExtension fname)"

text \<open>
  \<open>JSON.parse\<close> is a parameter of the model: it returns the value, or the text of the
  exception it throws. \<open>parseJsonFile\<close> returns the parsed value, or the empty object and
  the line it writes with \<open>console.error\<close> when \<open>JSON.parse\<close> throws.
\<close>

definition parseErrorLine :: "string \<Rightarrow> string \<Rightarrow> string" where
  "parseErrorLine path err =
     ''Error parsing '' @ path @ '', make sure it'' @ [CHR 0x27] @ ''s a valid JSON '' @ [CHR 0x0A] @ err"

definition parseJsonFile :: "(string \<Rightarrow> string + json) \<Rightarrow> string \<Rightarrow> string \<Rightarrow> json \<times> string list" where
  "parseJsonFile JSON_parse content path =
     (case JSON_parse content of
        Inr parsed \<Rightarrow> (parsed, [])
      | Inl err \<Rightarrow>
          (JObj [], [parseErrorLine path err]))"

definition metaLocale :: "string \<Rightarrow> string option" where
  "metaLocale fname = (case metaExtensionMatch fname of Some g \<Rightarrow> g | None \<Rightarrow> None)"

text \<open>
  The branch of the callback for a meta file that was read: the node it returns, the
  value of \<open>dirMeta\<close> after it, and what it logs.
\<close>

definition metaItem ::
    "(string \<Rightarrow> string + json) \<Rightarrow> string option \<Rightarrow> string \<Rightarrow> string \<Rightarrow> string \<Rightarrow> json \<Rightarrow>
     node \<times> json \<times> string list" where
  "metaItem JSON_parse activeRouteLocale filePath fname content dirMeta =
     (case parseJsonFile JSON_parse content filePath of
        (meta, logged) \<Rightarrow>
          (let locale = metaLocale fname
           in (MetaFile ''meta.json'' meta locale,
               if falsy activeRouteLocale \<or> locale = activeRouteLocale then meta else dirMeta,
               logged)))"

text \<open>
  The branch for a content or script file. \<open>grayMatter\<close> is a parameter: the members of the
  \<open>data\<close> it returns for a text. Only \<open>md\<close> and \<open>mdx\<close> files are read.
\<close>

definition pageItem :: "(string \<Rightarrow> (string \<times> json) list) \<Rightarrow> string \<Rightarrow> string \<Rightarrow> string option \<Rightarrow> failure + node" where
  "pageItem grayMatter fname fileRoute content =
     (let locale = getLocaleFromFilename fname in
      if mdxExtensionTest fname
      then (case content of
              None \<Rightarrow> Inl ReadFailure
            | Some fileContents \<Rightarrow>
                (let data = grayMatter fileContents in
                 if data \<noteq> []
                 then Inr (Page (removeExtension fname) fileRoute (Some (JObj data)) locale)
                 else Inr (Page (removeExtension fname) fileRoute None locale)))
      else Inr (Page (removeExtension fname) fileRoute None locale))"

text \<open>
  \<open>getFiles\<close> returns the array its promise is fulfilled with, or \<open>Inl ReadFailure\<close> when a
  read fails and the promise is rejected. \<open>getItem\<close> is the callback of \<open>files.map\<close>, with
  \<open>None\<close> for \<open>null\<close> and \<open>undefined\<close>; \<open>getItems\<close> is \<open>Promise.all\<close> over the callbacks, which
  keeps the order of the listing; the final \<open>map\<close> copies every item and \<open>filter(Boolean)\<close>
  drops the \<open>None\<close>s.

  The three variables that the callbacks assign, \<open>activeRoute\<close>, \<open>activeRouteTitle\<close> and
  \<open>dirMeta\<close>, have no part in the array returned and are left out here; the order in which
  the callbacks of one directory assign them is the order in which their reads complete.
  The final \<open>map\<close> also reads \<open>dirMeta[item.name]\<close>, which throws when \<open>dirMeta\<close> is \<open>null\<close>;
  that step, on the title, is \<open>assignTitles\<close> in the next subsection.
  The node of a meta file is the first component of \<open>metaItem\<close>, which does not depend on
  the two arguments that stand for \<open>activeRouteLocale\<close> and \<open>dirMeta\<close>.
\<close>

fun getFiles :: "(string \<Rightarrow> string + json) \<Rightarrow> (string \<Rightarrow> (string \<times> json) list) \<Rightarrow>
      string \<Rightarrow> entry list option \<Rightarrow> string \<Rightarrow> failure + node list"
  and getItems :: "(string \<Rightarrow> string + json) \<Rightarrow> (string \<Rightarrow> (string \<times> json) list) \<Rightarrow>
      string \<Rightarrow> entry list \<Rightarrow> string \<Rightarrow> failure + node option list"
  and getItem :: "(string \<Rightarrow> string + json) \<Rightarrow> (string \<Rightarrow> (string \<times> json) list) \<Rightarrow>
      string \<Rightarrow> entry \<Rightarrow> string \<Rightarrow> failure + node option"
where
  "getFiles JSON_parse grayMatter dir None route = Inl ReadFailure"
| "getFiles JSON_parse grayMatter dir (Some entries) route =
     (case getItems JSON_parse grayMatter dir entries route of
        Inl e \<Rightarrow> Inl e
      | Inr items \<Rightarrow> Inr (List.map_filter id items))"
| "getItems JSON_parse grayMatter dir [] route = Inr []"
| "getItems JSON_parse grayMatter dir (f # fs) route =
     (case getItem JSON_parse grayMatter dir f route of
        Inl e \<Rightarrow> Inl e
      | Inr item \<Rightarrow>
          (case getItems JSON_parse grayMatter dir fs route of
             Inl e \<Rightarrow> Inl e
           | Inr items \<Rightarrow> Inr (item # items)))"
| "getItem JSON_parse grayMatter dir (DirEntry fname sub) route =
     (case getFiles JSON_parse grayMatter (pathResolve dir fname) sub (fileRouteOf route fname) of
        Inl e \<Rightarrow> Inl e
      | Inr children \<Rightarrow>
          if children = [] then Inr None
          else Inr (Some (Directory fname (fileRouteOf route fname) children)))"
| "getItem JSON_parse grayMatter dir (FileEntry fname content) route =
     (if extensionTest fname
      then (case pageItem grayMatter fname (fileRouteOf route fname) content of
              Inl e \<Rightarrow> Inl e
            | Inr page \<Rightarrow> Inr (Some page))
      else if metaExtensionMatch fname \<noteq> None
      then (case content of
              None \<Rightarrow> Inl ReadFailure
            | Some src \<Rightarrow>
                Inr (Some (fst (metaItem JSON_parse None (pathResolve dir fname) fname src (JObj [])))))
      else Inr None)"

text \<open>
  A content directory with a meta file that is not valid JSON, a file that is neither
  content nor meta, and a subdirectory without content at any depth; a parser that
  accepts the text \<open>{}\<close> only, and a front-matter extractor.
\<close>

definition sampleTree :: "entry list" where
  "sampleTree =
     [FileEntry ''index.en.mdx'' (Some ''# Hello''),
      FileEntry ''meta.en.json'' (Some ''{ broken''),
      FileEntry ''notes.txt'' None,
      DirEntry ''empty'' (Some [FileEntry ''README'' None, DirEntry ''deeper'' (Some [])]),
      DirEntry ''docs'' (Some [FileEntry ''intro.fr.md'' (Some ''Bonjour''), FileEntry ''util.ts'' None])]"

definition sampleParse :: "string \<Rightarrow> string + json" where
  "sampleParse s = (if s = ''{}'' then Inr (JObj []) else Inl ''SyntaxError'')"

definition sampleMatter :: "string \<Rightarrow> (string \<times> json) list" where
  "sampleMatter s = (if startsWith s ''---'' then [(''title'', JStr ''T'')] else [])"

text \<open>
  For the statements about the tree: a node without empty directories, at any depth,
  and the three kinds of entry that give a node: a subdirectory whose own result is not
  empty, a content or script file, and a meta file.
\<close>

fun noEmptyDirectory :: "node \<Rightarrow> bool" where
  "noEmptyDirectory (Directory n r ch) = (ch \<noteq> [] \<and> list_all noEmptyDirectory ch)"
| "noEmptyDirectory (Page n r fm l) = True"
| "noEmptyDirectory (MetaFile n m l) = True"

fun nonEmptySubdirectory :: "(string \<Rightarrow> string + json) \<Rightarrow> (string \<Rightarrow> (string \<times> json) list) \<Rightarrow>
      string \<Rightarrow> string \<Rightarrow> entry \<Rightarrow> bool" where
  "nonEmptySubdirectory JSON_parse grayMatter dir route (DirEntry fname sub) =
     (case getFiles JSON_parse grayMatter (pathResolve dir fname) sub (fileRouteOf route fname) of
        Inl e \<Rightarrow> False
      | Inr children \<Rightarrow> children \<noteq> [])"
| "nonEmptySubdirectory JSON_parse grayMatter dir route (FileEntry fname content) = False"

fun isContentFile :: "entry \<Rightarrow> bool" where
  "isContentFile (DirEntry fname sub) = False"
| "isContentFile (FileEntry fname content) = extensionTest fname"

fun isMetaFile :: "entry \<Rightarrow> bool" where
  "isMetaFile (DirEntry fname sub) = False"
| "isMetaFile (FileEntry fname content) = (\<not> extensionTest fname \<and> metaExtensionMatch fname \<noteq> None)"

definition itemOk :: "node option \<Rightarrow> bool" where
  "itemOk item = (case item of None \<Rightarrow> True | Some n \<Rightarrow> noEmptyDirectory n)"

subsection \<open>The title of the active route\<close>

text \<open>
  When the callbacks of a directory have completed, the final \<open>map\<close> runs over the items
  in the order of the listing and, for an item whose route is \<open>activeRoute\<close>, assigns
  \<open>activeRouteTitle = dirMeta[item.name] || item.name\<close>.

  \<open>dirMeta\<close> is whatever \<open>JSON.parse\<close> returned, so the read \<open>dirMeta[item.name]\<close> is a
  property read on a JSON value: it throws a \<open>TypeError\<close> on \<open>null\<close>; it returns an own
  property when there is one (a member of an object, the last of its name; an element
  or the length of an array; a character or the length of a string); otherwise it
  returns what the value inherits under that name from the prototypes of the engine
  (for an object, \<open>constructor\<close>, \<open>toString\<close> and the other properties of
  \<open>Object.prototype\<close>), or \<open>undefined\<close>. Which names are inherited is a parameter,
  \<open>inherited\<close>; an inherited value is kept as \<open>Builtin\<close> with its name, and is truthy.
\<close>

datatype thrown = TypeError

datatype jsvalue = Undefined | Json json | Builtin string

definition ownProperty :: "json \<Rightarrow> string \<Rightarrow> json option" where
  "ownProperty v k =
     (case v of
        JObj members \<Rightarrow> map_of (rev members) k
      | JArr xs \<Rightarrow>
          if isArrayIndex k \<and> indexValue k < int (length xs) then Some (xs ! nat (indexValue k))
          else if k = ''length'' then Some (JNum (int (length xs)))
          else None
      | JStr s \<Rightarrow>
          if isArrayIndex k \<and> indexValue k < int (length s) then Some (JStr [s ! nat (indexValue k)])
          else if k = ''length'' then Some (JNum (int (length s)))
          else None
      | _ \<Rightarrow> None)"

definition getProperty :: "(json \<Rightarrow> string \<Rightarrow> bool) \<Rightarrow> json \<Rightarrow> string \<Rightarrow> thrown + jsvalue" where
  "getProperty inherited v k =
     (if v = JNull then Inl TypeError
      else Inr (case ownProperty v k of
                  Some x \<Rightarrow> Json x
                | None \<Rightarrow> if inherited v k then Builtin k else Undefined))"

fun truthy :: "jsvalue \<Rightarrow> bool" where
  "truthy Undefined = False"
| "truthy (Builtin k) = True"
| "truthy (Json JNull) = False"
| "truthy (Json (JBool b)) = b"
| "truthy (Json (JNum n)) = (n \<noteq> 0)"
| "truthy (Json (JStr s)) = (s \<noteq> [])"
| "truthy (Json (JArr xs)) = True"
| "truthy (Json (JObj members)) = True"

text \<open>\<open>dirMeta[item.name] || item.name\<close>.\<close>

definition titleOf :: "(json \<Rightarrow> string \<Rightarrow> bool) \<Rightarrow> json \<Rightarrow> string \<Rightarrow> thrown + jsvalue" where
  "titleOf inherited dirMeta itemName =
     (case getProperty inherited dirMeta itemName of
        Inl e \<Rightarrow> Inl e
      | Inr v \<Rightarrow> Inr (if truthy v then v else Json (JStr itemName)))"

text \<open>
  \<open>item.route\<close>: a meta file has none. \<open>assignTitles\<close> is the final \<open>map\<close> of one directory on
  \<open>activeRouteTitle\<close>: it returns the title after the last item, or \<open>Inl TypeError\<close> when a
  read throws, which rejects the promise of \<open>getFiles\<close>.
\<close>

fun itemRoute :: "node \<Rightarrow> string option" where
  "itemRoute (Directory n r ch) = Some r"
| "itemRoute (Page n r fm l) = Some r"
| "itemRoute (MetaFile n m l) = None"

fun assignTitles ::
    "(json \<Rightarrow> string \<Rightarrow> bool) \<Rightarrow> json \<Rightarrow> string \<Rightarrow> node option list \<Rightarrow> jsvalue \<Rightarrow> thrown + jsvalue" where
  "assignTitles inherited dirMeta activeRoute [] activeRouteTitle = Inr activeRouteTitle"
| "assignTitles inherited dirMeta activeRoute (None # items) activeRouteTitle =
     assignTitles inherited dirMeta activeRoute items activeRouteTitle"
| "assignTitles inherited dirMeta activeRoute (Some item # items) activeRouteTitle =
     (if itemRoute item = Some activeRoute
      then (case titleOf inherited dirMeta (name item) of
              Inl e \<Rightarrow> Inl e
            | Inr t \<Rightarrow> assignTitles inherited dirMeta activeRoute items t)
      else assignTitles inherited dirMeta activeRoute items activeRouteTitle)"

text \<open>
  \<open>dirMeta\<close> starts as \<open>{}\<close>, and the callback of a meta file assigns it after its own
  \<open>await readFile\<close>: the assignments of one directory happen in the order in which the
  reads of its meta files settle, which \<open>Promise.all\<close> does not fix. That order is a
  parameter: \<open>settled\<close> lists the meta files of the directory, each with its text, in the
  order in which their reads settle, and \<open>dirMetaAfter\<close> is \<open>dirMeta\<close> when all callbacks
  have completed. \<open>metaFiles\<close> are the meta files of a listing that can be read, in the
  order of the listing.

  \<open>directoryTitle\<close> is \<open>activeRouteTitle\<close> after the final \<open>map\<close> of a directory whose
  callbacks have completed with the items \<open>items\<close>.
\<close>

fun metaFile :: "entry \<Rightarrow> (string \<times> string) option" where
  "metaFile (DirEntry fname sub) = None"
| "metaFile (FileEntry fname None) = None"
| "metaFile (FileEntry fname (Some src)) =
     (if \<not> extensionTest fname \<and> metaExtensionMatch fname \<noteq> None then Some (fname, src) else None)"

definition metaFiles :: "entry list \<Rightarrow> (string \<times> string) list" where
  "metaFiles listing = List.map_filter metaFile listing"

definition dirMetaAfter ::
    "(string \<Rightarrow> string + json) \<Rightarrow> string option \<Rightarrow> string \<Rightarrow> (string \<times> string) list \<Rightarrow> json" where
  "dirMetaAfter JSON_parse activeRouteLocale dir settled =
     foldl (\<lambda>dirMeta (fname, src).
              fst (snd (metaItem JSON_parse activeRouteLocale (pathResolve dir fname) fname src dirMeta)))
       (JObj []) settled"

definition directoryTitle ::
    "(string \<Rightarrow> string + json) \<Rightarrow> (json \<Rightarrow> string \<Rightarrow> bool) \<Rightarrow> string \<Rightarrow> string \<Rightarrow>
     (string \<times> string) list \<Rightarrow> string \<Rightarrow> node option list \<Rightarrow> jsvalue \<Rightarrow> thrown + jsvalue" where
  "directoryTitle JSON_parse inherited currentResourcePath dir settled activeRoute items activeRouteTitle =
     assignTitles inherited
       (dirMetaAfter JSON_parse (getLocaleFromFilename currentResourcePath) dir settled)
       activeRoute items activeRouteTitle"

text \<open>
  The authoritative meta of a directory as the specification words it: the mapping of
  the last meta file, in the order of the listing, whose locale is the locale of the
  active file, or of the last meta file when the active file has no locale tag; the
  empty mapping when there is none.
\<close>

definition authoritativeMeta ::
    "(string \<Rightarrow> string + json) \<Rightarrow> string option \<Rightarrow> string \<Rightarrow> (string \<times> string) list \<Rightarrow> json" where
  "authoritativeMeta JSON_parse activeLocale dir metas =
     (case lastOpt (filter (\<lambda>(fname, src). activeLocale = None \<or> metaLocale fname = activeLocale) metas) of
        None \<Rightarrow> JObj []
      | Some (fname, src) \<Rightarrow> fst (parseJsonFile JSON_parse src (pathResolve dir fname)))"

text \<open>
  A directory with two meta files and the page \<open>index.md\<close>, a parser for their two texts,
  the names that an object inherits from \<open>Object.prototype\<close>, and the items of the
  directory.
\<close>

definition titleListing :: "entry list" where
  \<open>titleListing =
     [FileEntry ''meta.en.json'' (Some ''{"index": "Welcome"}''),
      FileEntry ''meta.json'' (Some ''{"index": "Home"}''),
      FileEntry ''index.md'' (Some ''# Hello'')]\<close>

definition titleParse :: "string \<Rightarrow> string + json" where
  \<open>titleParse s =
     (if s = ''{"index": "Welcome"}'' then Inr (JObj [(''index'', JStr ''Welcome'')])
      else if s = ''{"index": "Home"}'' then Inr (JObj [(''index'', JStr ''Home'')])
      else Inl ''SyntaxError'')\<close>

definition objectPrototype :: "json \<Rightarrow> string \<Rightarrow> bool" where
  "objectPrototype v k \<longleftrightarrow>
     k \<in> set [''constructor'', ''__defineGetter__'', ''__defineSetter__'', ''hasOwnProperty'',
              ''__lookupGetter__'', ''__lookupSetter__'', ''isPrototypeOf'', ''propertyIsEnumerable'',
              ''toString'', ''valueOf'', ''__proto__'', ''toLocaleString'']"

definition titleItems :: "node option list" where
  "titleItems =
     [Some (MetaFile ''meta.json'' (JObj [(''index'', JStr ''Welcome'')]) (Some ''en'')),
      Some (MetaFile ''meta.json'' (JObj [(''index'', JStr ''Home'')]) None),
      Some (Page ''index'' ''/'' None None)]"

section \<open>Properties of route naming\<close>

text \<open>
  C6: \<open>getLocaleFromFilename\<close> returns the locale tag of a name \<open>base.locale.ext\<close> for
  every recognised content or script extension, \<open>ts\<close> and \<open>tsx\<close> among them. The pattern
  of \<open>getLocaleFromFilename\<close> lists \<open>mdx?\<close>, \<open>jsx?\<close> and \<open>json\<close> only, while the patterns
  \<open>extension\<close> and \<open>filenameRe\<close> of the same file accept \<open>tsx?\<close>: for \<open>index.en.tsx\<close>
  and \<open>index.en.ts\<close> the result is \<open>undefined\<close>, not the tag \<open>en\<close>. The two examples of the
  claim hold.
\<close>

theorem getLocaleFromFilename_tsx_undefined:
  "getLocaleFromFilename ''index.en.tsx'' = None \<and>
   getLocaleFromFilename ''index.en.ts'' = None \<and>
   getLocaleFromFilename ''index.en.mdx'' = Some ''en'' \<and>
   getLocaleFromFilename ''index.mdx'' = None"
  by (simp add: getLocaleFromFilename_def notDot_def localeChar_def)

lemma span_run:
  "list_all P xs \<Longrightarrow> \<not> P y \<Longrightarrow>
     takeWhile P (xs @ y # ys) = xs \<and> dropWhile P (xs @ y # ys) = y # ys"
  by (induction xs) auto

lemma takeWhile_rev_ext:
  assumes "list_all notDot ext"
  shows "takeWhile notDot (rev ext @ CHR ''.'' # rest) = rev ext"
    and "dropWhile notDot (rev ext @ CHR ''.'' # rest) = CHR ''.'' # rest"
  using span_run [of notDot "rev ext" "CHR ''.''" rest] assms
  by (simp_all add: notDot_def)

lemma takeWhile_rev_locale:
  assumes "list_all localeChar loc"
  shows "takeWhile localeChar (rev loc @ CHR ''.'' # rest) = rev loc"
    and "dropWhile localeChar (rev loc @ CHR ''.'' # rest) = CHR ''.'' # rest"
  using span_run [of localeChar "rev loc" "CHR ''.''" rest] assms
  by (simp_all add: localeChar_def)

lemma ext_notDot:
  "ext \<in> set [''md'', ''mdx'', ''js'', ''jsx'', ''json''] \<Longrightarrow> list_all notDot ext"
  by (auto simp: notDot_def)

text \<open>
  For the extensions that the pattern of \<open>getLocaleFromFilename\<close> lists, the result for a
  name \<open>base.locale.ext\<close> is the locale tag, whatever the base.
\<close>

theorem getLocaleFromFilename_recognised:
  assumes "ext \<in> set [''md'', ''mdx'', ''js'', ''jsx'', ''json'']"
    and "loc \<noteq> []" and "list_all localeChar loc"
  shows "getLocaleFromFilename (base @ ''.'' @ loc @ ''.'' @ ext) = Some loc"
proof -
  have r: "rev (base @ ''.'' @ loc @ ''.'' @ ext) = rev ext @ CHR ''.'' # (rev loc @ CHR ''.'' # rev base)"
    by simp
  note e = takeWhile_rev_ext [OF ext_notDot [OF assms(1)], of "rev loc @ CHR ''.'' # rev base"]
  note l = takeWhile_rev_locale [OF assms(3), of "rev base"]
  show ?thesis
    unfolding getLocaleFromFilename_def r Let_def e
    using assms(1,2) by (simp add: l)
qed

text \<open>
  For a plain name \<open>base.ext\<close>, with no dot in the base, the result is \<open>undefined\<close>.
\<close>

theorem getLocaleFromFilename_plain:
  assumes "ext \<in> set [''md'', ''mdx'', ''js'', ''jsx'', ''ts'', ''tsx'', ''json'']"
    and "list_all notDot base"
  shows "getLocaleFromFilename (base @ ''.'' @ ext) = None"
proof -
  have r: "rev (base @ ''.'' @ ext) = rev ext @ CHR ''.'' # rev base"
    by simp
  have n: "list_all notDot ext" using assms(1) by (auto simp: notDot_def)
  note e = takeWhile_rev_ext [OF n, of "rev base"]
  have a: "\<And>x. x \<in> set (rev base) \<Longrightarrow> notDot x"
    using assms(2) by (simp add: list_all_iff)
  have d: "dropWhile localeChar (rev base) = [] \<or> hd (dropWhile localeChar (rev base)) \<noteq> CHR ''.''"
  proof (cases "dropWhile localeChar (rev base)")
    case Nil
    then show ?thesis by simp
  next
    case (Cons c cs)
    then have "c \<in> set (rev base)"
      by (metis list.set_intros(1) set_dropWhileD)
    then have "c \<noteq> CHR ''.''" using a by (auto simp: notDot_def)
    then show ?thesis using Cons by simp
  qed
  show ?thesis
    unfolding getLocaleFromFilename_def r Let_def e
    using d by auto
qed

theorem getLocaleFromFilename_recognised_witness:
  "''mdx'' \<in> set [''md'', ''mdx'', ''js'', ''jsx'', ''json''] \<and> ''en-US'' \<noteq> [] \<and> list_all localeChar ''en-US'' \<and>
   getLocaleFromFilename (''index'' @ ''.'' @ ''en-US'' @ ''.'' @ ''mdx'') = Some ''en-US''"
proof -
  have a: "''mdx'' \<in> set [''md'', ''mdx'', ''js'', ''jsx'', ''json'']" by simp
  have b: "''en-US'' \<noteq> []" by simp
  have c: "list_all localeChar ''en-US''" by (simp add: localeChar_def)
  show ?thesis
    by (intro conjI a b c getLocaleFromFilename_recognised [OF a b c])
qed

theorem getLocaleFromFilename_plain_witness:
  "''tsx'' \<in> set [''md'', ''mdx'', ''js'', ''jsx'', ''ts'', ''tsx'', ''json''] \<and> list_all notDot ''index'' \<and>
   getLocaleFromFilename (''index'' @ ''.'' @ ''tsx'') = None"
proof -
  have a: "''tsx'' \<in> set [''md'', ''mdx'', ''js'', ''jsx'', ''ts'', ''tsx'', ''json'']" by simp
  have b: "list_all notDot ''index''" by (simp add: notDot_def)
  show ?thesis
    by (intro conjI a b getLocaleFromFilename_plain [OF a b])
qed

section \<open>Properties of the locale fallback filter\<close>

subsection \<open>The loops, characterised\<close>

lemma filterLoop_eq:
  "filterLoop xs L D (out, fb) =
     (out @ map (refilter L D) (filter (pushed L D) xs),
      recordAll (filter (\<lambda>p. \<not> isDirectory p) xs) L D fb)"
proof (induction xs arbitrary: out fb)
  case Nil
  show ?case by (simp add: recordAll_def)
next
  case (Cons x xs)
  show ?case
    by (cases x) (simp_all add: Cons.IH pushed_def recordAll_def)
qed

lemma filterRouteLocale_eq:
  "filterRouteLocale xs L D =
     map (refilter L D) (filter (pushed L D) xs) @
     fallbackList (recordAll (filter (\<lambda>p. \<not> isDirectory p) xs) L D [])"
  by (simp add: filterLoop_eq)

declare filterRouteLocale.simps [simp del]

lemma firstSeen_snoc:
  "firstSeen (ks @ [k]) = (if k \<in> set ks then firstSeen ks else firstSeen ks @ [k])"
  by (simp add: firstSeen_def)

lemma set_firstSeen [simp]: "set (firstSeen ks) = set ks"
  by (simp add: firstSeen_def)

lemma distinct_firstSeen [simp]: "distinct (firstSeen ks)"
  by (simp add: firstSeen_def)

lemma firstSeen_Nil [simp]: "firstSeen [] = []"
  by (simp add: firstSeen_def)

lemma lastOpt_snoc [simp]: "lastOpt (xs @ [x]) = Some x"
  by (simp add: lastOpt_def)

lemma lastOpt_Nil [simp]: "lastOpt [] = None"
  by (simp add: lastOpt_def)

lemma recordAll_snoc:
  "recordAll (ps @ [p]) L D fb = recordPage p L D (recordAll ps L D fb)"
  by (simp add: recordAll_def)

lemma recordAll_keys:
  "map fst (recordAll ps L D []) = firstSeen (map name (filter (touches L D) ps))
   \<and> map_of (recordAll ps L D []) = entryOf ps L D"
proof (induction ps rule: rev_induct)
  case Nil
  show ?case by (simp add: recordAll_def entryOf_def fun_eq_iff)
next
  case (snoc p ps)
  then have k: "map fst (recordAll ps L D []) = firstSeen (map name (filter (touches L D) ps))"
    and v: "map_of (recordAll ps L D []) = entryOf ps L D" by simp_all
  have keys_t: "set (map fst (recordAll ps L D [])) = name ` set (filter (touches L D) ps)"
    using k by simp
  have ex_iff: "\<And>n. entryOf ps L D n = Some None \<longleftrightarrow> list_ex (\<lambda>p. name p = n \<and> localDoesMatch p L D) ps"
    by (auto simp: entryOf_def)
  let ?t = "recordAll ps L D []"
  consider (a) "localDoesMatch p L D"
    | (b) "\<not> localDoesMatch p L D" "canFallback p D" "map_of ?t (name p) \<noteq> Some None"
    | (c) "\<not> localDoesMatch p L D" "canFallback p D" "map_of ?t (name p) = Some None"
    | (d) "\<not> localDoesMatch p L D" "\<not> canFallback p D"
    by blast
  then show ?case
  proof cases
    case a
    have r: "recordAll (ps @ [p]) L D [] = AList.update (name p) None ?t"
      using a by (simp add: recordAll_snoc recordPage_def)
    have t: "touches L D p" using a by (simp add: touches_def)
    have 1: "map fst (recordAll (ps @ [p]) L D []) = firstSeen (map name (filter (touches L D) (ps @ [p])))"
      unfolding r using t keys_t k by (simp add: update_keys firstSeen_snoc)
    have 2: "map_of (recordAll (ps @ [p]) L D []) = entryOf (ps @ [p]) L D"
      unfolding r using a v by (auto simp: update_conv' fun_eq_iff entryOf_def)
    show ?thesis using 1 2 by simp
  next
    case b
    have r: "recordAll (ps @ [p]) L D [] = AList.update (name p) (Some p) ?t"
      using b by (simp add: recordAll_snoc recordPage_def)
    have t: "touches L D p" using b by (simp add: touches_def)
    have 1: "map fst (recordAll (ps @ [p]) L D []) = firstSeen (map name (filter (touches L D) (ps @ [p])))"
      unfolding r using t keys_t k by (simp add: update_keys firstSeen_snoc)
    have noex: "\<not> list_ex (\<lambda>q. name q = name p \<and> localDoesMatch q L D) ps"
      using b(3) v ex_iff by simp
    have 2: "map_of (recordAll (ps @ [p]) L D []) = entryOf (ps @ [p]) L D"
      unfolding r using b noex v by (auto simp: update_conv' fun_eq_iff entryOf_def)
    show ?thesis using 1 2 by simp
  next
    case c
    have r: "recordAll (ps @ [p]) L D [] = ?t"
      using c by (simp add: recordAll_snoc recordPage_def)
    have t: "touches L D p" using c by (simp add: touches_def)
    have "name p \<in> set (map fst ?t)"
      using c(3) by (metis map_of_eq_None_iff option.distinct(1) set_map)
    then have 1: "map fst (recordAll (ps @ [p]) L D []) = firstSeen (map name (filter (touches L D) (ps @ [p])))"
      unfolding r using t keys_t k by (simp add: firstSeen_snoc)
    have ex: "list_ex (\<lambda>q. name q = name p \<and> localDoesMatch q L D) ps"
      using c(3) v ex_iff by simp
    have 2: "map_of (recordAll (ps @ [p]) L D []) = entryOf (ps @ [p]) L D"
      unfolding r using c ex v by (auto simp: fun_eq_iff entryOf_def)
    show ?thesis using 1 2 by simp
  next
    case d
    have r: "recordAll (ps @ [p]) L D [] = ?t"
      using d by (simp add: recordAll_snoc recordPage_def)
    have t: "\<not> touches L D p" using d by (simp add: touches_def)
    have 1: "map fst (recordAll (ps @ [p]) L D []) = firstSeen (map name (filter (touches L D) (ps @ [p])))"
      unfolding r using t k by simp
    have 2: "map_of (recordAll (ps @ [p]) L D []) = entryOf (ps @ [p]) L D"
      unfolding r using d v by (auto simp: fun_eq_iff entryOf_def)
    show ?thesis using 1 2 by simp
  qed
qed


lemma fallbacks_eq:
  "fallbacks ps L D =
     List.map_filter (candidateOf ps L D) (keyOrder (firstSeen (map name (filter (touches L D) ps))))"
proof -
  have "candidateOf ps L D = (\<lambda>k. case entryOf ps L D k of Some (Some p) \<Rightarrow> Some p | _ \<Rightarrow> None)"
    by (simp add: fun_eq_iff candidateOf_def)
  then show ?thesis
    using recordAll_keys [of ps L D]
    by (simp add: fallbacks_def fallbackList_def ownKeys_def)
qed

lemma lastOpt_SomeD: "lastOpt xs = Some x \<Longrightarrow> x \<in> set xs"
  by (cases xs rule: rev_cases) (simp_all add: lastOpt_def)

lemma candidateOf_SomeD:
  assumes "candidateOf ps L D n = Some p"
  shows "p \<in> set ps" "name p = n" "canFallback p D" "\<not> localDoesMatch p L D"
    "\<And>q. q \<in> set ps \<Longrightarrow> name q = n \<Longrightarrow> \<not> localDoesMatch q L D"
proof -
  have ne: "\<not> list_ex (\<lambda>p. name p = n \<and> localDoesMatch p L D) ps"
    and l: "lastOpt (filter (\<lambda>p. name p = n \<and> canFallback p D) ps) = Some p"
    using assms by (auto simp: candidateOf_def entryOf_def split: if_splits option.splits)
  from lastOpt_SomeD [OF l] show p: "p \<in> set ps" and n: "name p = n" and "canFallback p D" by auto
  show "\<And>q. q \<in> set ps \<Longrightarrow> name q = n \<Longrightarrow> \<not> localDoesMatch q L D"
    using ne by (auto simp: list_ex_iff)
  then show "\<not> localDoesMatch p L D" using p n by blast
qed

lemma keyOrder_filter: "filter P (keyOrder ks) = keyOrder (filter P ks)"
proof -
  have "filter P (filter isArrayIndex ks) = filter isArrayIndex (filter P ks)"
    by (simp add: conj_commute)
  moreover have "filter P (filter (\<lambda>k. \<not> isArrayIndex k) ks) = filter (\<lambda>k. \<not> isArrayIndex k) (filter P ks)"
    by (simp add: conj_commute)
  ultimately show ?thesis by (simp add: keyOrder_def filter_sort)
qed

lemma keyOrder_idem: "keyOrder (keyOrder ks) = keyOrder ks"
proof -
  have 1: "filter isArrayIndex (keyOrder ks) = sort_key indexValue (filter isArrayIndex ks)"
    by (simp add: keyOrder_def filter_sort)
  have 2: "filter (\<lambda>k. \<not> isArrayIndex k) (keyOrder ks) = filter (\<lambda>k. \<not> isArrayIndex k) ks"
    by (simp add: keyOrder_def filter_sort)
  have 3: "sort_key indexValue (sort_key indexValue (filter isArrayIndex ks)) = sort_key indexValue (filter isArrayIndex ks)"
    by (simp add: sort_key_id_if_sorted)
  show ?thesis
    unfolding keyOrder_def [of "keyOrder ks"] 1 2 3 by (simp add: keyOrder_def)
qed

lemma set_keyOrder [simp]: "set (keyOrder ks) = set ks"
  by (auto simp: keyOrder_def)

lemma distinct_keyOrder [simp]: "distinct (keyOrder ks) = distinct ks"
  by (induction ks) (auto simp: keyOrder_def distinct_insort set_insort_key)


lemma firstSeen_filter: "filter P (firstSeen ks) = firstSeen (filter P ks)"
  by (simp add: firstSeen_def rev_filter [symmetric] remdups_filter [symmetric])

lemma firstSeen_distinct: "distinct ks \<Longrightarrow> firstSeen ks = ks"
  by (simp add: firstSeen_def distinct_remdups_id)

lemma filter_eq_singleton: "distinct xs \<Longrightarrow> n \<in> set xs \<Longrightarrow> filter (\<lambda>m. m = n) xs = [n]"
  by (induction xs) (auto simp: filter_empty_conv)

lemma fallbacks_again:
  "fallbacks (filter (\<lambda>p. localDoesMatch p L D) ps @ fallbacks ps L D) L D = fallbacks ps L D"
proof -
  define E where "E = filter (\<lambda>p. localDoesMatch p L D) ps"
  define K0 where "K0 = firstSeen (map name (filter (touches L D) ps))"
  define c0 where "c0 = candidateOf ps L D"
  define NB where "NB = filter (\<lambda>n. c0 n \<noteq> None) (keyOrder K0)"
  define B where "B = map (the \<circ> c0) NB"
  define c1 where "c1 = candidateOf (E @ B) L D"
  have B: "fallbacks ps L D = B"
    by (simp add: fallbacks_eq B_def NB_def c0_def K0_def List.map_filter_def)
  have c0: "\<And>n. n \<in> set NB \<Longrightarrow> c0 n = Some (the (c0 n))"
    by (auto simp: NB_def)
  have nameB: "\<And>n. n \<in> set NB \<Longrightarrow> name (the (c0 n)) = n"
    using c0 candidateOf_SomeD(2) unfolding c0_def by metis
  have fbB: "\<And>n. n \<in> set NB \<Longrightarrow> canFallback (the (c0 n)) D"
    using c0 candidateOf_SomeD(3) unfolding c0_def by metis
  have nexB: "\<And>n. n \<in> set NB \<Longrightarrow> \<not> localDoesMatch (the (c0 n)) L D"
    using c0 candidateOf_SomeD(4) unfolding c0_def by metis
  have unres: "\<And>n q. n \<in> set NB \<Longrightarrow> q \<in> set E \<Longrightarrow> name q \<noteq> n"
    using c0 candidateOf_SomeD(5) unfolding c0_def E_def by (metis (mono_tags, lifting) mem_Collect_eq set_filter)
  have dNB: "distinct NB"
    by (simp add: NB_def K0_def)
  have kNB: "keyOrder NB = NB"
    by (simp add: NB_def keyOrder_filter keyOrder_idem)
  have exE: "\<And>q. q \<in> set E \<Longrightarrow> localDoesMatch q L D"
    by (simp add: E_def)
  have touch: "filter (touches L D) (E @ B) = E @ B"
    using exE fbB by (auto simp: touches_def B_def filter_id_conv)
  have namesB: "map name B = NB"
    using nameB by (simp add: B_def map_idI)
  have filtB: "\<And>n. n \<in> set NB \<Longrightarrow> filter (\<lambda>p. name p = n \<and> canFallback p D) B = [the (c0 n)]"
  proof -
    fix n assume n: "n \<in> set NB"
    have "filter (\<lambda>p. name p = n \<and> canFallback p D) B = map (the \<circ> c0) (filter (\<lambda>m. m = n) NB)"
      unfolding B_def filter_map using nameB fbB by (auto intro!: arg_cong [where f = "map (the \<circ> c0)"] filter_cong)
    then show "filter (\<lambda>p. name p = n \<and> canFallback p D) B = [the (c0 n)]"
      using filter_eq_singleton [OF dNB n] by simp
  qed
  have c1_in: "\<And>n. n \<in> set NB \<Longrightarrow> c1 n = c0 n"
  proof -
    fix n assume n: "n \<in> set NB"
    have 1: "\<not> list_ex (\<lambda>p. name p = n \<and> localDoesMatch p L D) (E @ B)"
      using unres [OF n] nexB by (auto simp: list_ex_iff B_def)
    have 2: "filter (\<lambda>p. name p = n \<and> canFallback p D) E = []"
      using unres [OF n] by (auto simp: filter_empty_conv)
    show "c1 n = c0 n"
      using 1 2 filtB [OF n] c0 [OF n] by (simp add: c1_def candidateOf_def entryOf_def lastOpt_def split: option.splits)
  qed
  have c1_out: "\<And>n. n \<notin> set NB \<Longrightarrow> c1 n = None"
  proof -
    fix n assume n: "n \<notin> set NB"
    show "c1 n = None"
    proof (cases "list_ex (\<lambda>p. name p = n \<and> localDoesMatch p L D) (E @ B)")
      case True
      then show ?thesis by (simp add: c1_def candidateOf_def entryOf_def)
    next
      case False
      then have "filter (\<lambda>p. name p = n \<and> canFallback p D) E = []"
        using exE by (auto simp: filter_empty_conv list_ex_iff)
      moreover have "filter (\<lambda>p. name p = n \<and> canFallback p D) B = []"
        using n namesB by (auto simp: filter_empty_conv)
      ultimately show ?thesis
        using False by (simp add: c1_def candidateOf_def entryOf_def)
    qed
  qed
  have c1_iff: "c1 n \<noteq> None \<longleftrightarrow> n \<in> set NB" for n
  proof (cases "n \<in> set NB")
    case True
    have "c0 n \<noteq> None" using True by (simp add: NB_def)
    then show ?thesis using c1_in [OF True] True by simp
  next
    case False
    then show ?thesis using c1_out [OF False] by simp
  qed
  have sel: "filter (\<lambda>n. c1 n \<noteq> None) ks = filter (\<lambda>n. n \<in> set NB) ks" for ks
    by (simp only: c1_iff)
  have disj: "filter (\<lambda>n. n \<in> set NB) (map name E) = []"
    using unres by (auto simp: filter_empty_conv)
  have keys: "filter (\<lambda>n. n \<in> set NB) (firstSeen (map name E @ NB)) = NB"
    using disj dNB by (simp add: firstSeen_filter firstSeen_distinct)
  have "fallbacks (E @ B) L D =
      map (the \<circ> c1) (filter (\<lambda>n. c1 n \<noteq> None) (keyOrder (firstSeen (map name E @ NB))))"
    unfolding fallbacks_eq touch by (simp add: namesB c1_def List.map_filter_def)
  also have "\<dots> = map (the \<circ> c1) NB"
    by (simp only: sel keyOrder_filter keys kNB)
  also have "\<dots> = B"
    using c1_in by (simp add: B_def)
  finally show ?thesis
    by (simp add: B E_def)
qed


lemma filterRouteLocale_fallbacks:
  "filterRouteLocale xs L D =
     map (refilter L D) (filter (pushed L D) xs) @ fallbacks (filter (\<lambda>p. \<not> isDirectory p) xs) L D"
  by (simp add: filterRouteLocale_eq fallbacks_def)

lemma isDirectory_refilter [simp]: "isDirectory (refilter L D x) = isDirectory x"
  by (cases x) simp_all

lemma refilter_page [simp]: "\<not> isDirectory x \<Longrightarrow> refilter L D x = x"
  by (cases x) simp_all

lemma pushed_refilter [simp]: "pushed L D (refilter L D x) = pushed L D x"
  by (cases x) (simp_all add: pushed_def)

lemma fallbacks_subset:
  assumes "p \<in> set (fallbacks ps L D)"
  shows "p \<in> set ps \<and> canFallback p D \<and> \<not> localDoesMatch p L D"
proof -
  from assms obtain n where "candidateOf ps L D n = Some p"
    by (auto simp: fallbacks_eq List.map_filter_def)
  then show ?thesis
    using candidateOf_SomeD(1,3,4) by blast
qed

lemma filterRouteLocale_again:
  assumes "\<And>x. x \<in> set xs \<Longrightarrow> refilter L D (refilter L D x) = refilter L D x"
  shows "filterRouteLocale (filterRouteLocale xs L D) L D = filterRouteLocale xs L D"
proof -
  define ps where "ps = filter (\<lambda>p. \<not> isDirectory p) xs"
  define K where "K = map (refilter L D) (filter (pushed L D) xs)"
  define B where "B = fallbacks ps L D"
  have F: "filterRouteLocale xs L D = K @ B"
    by (simp add: filterRouteLocale_fallbacks K_def B_def ps_def)
  have B_in: "\<not> isDirectory p \<and> \<not> localDoesMatch p L D" if "p \<in> set B" for p
  proof -
    have "p \<in> set ps \<and> canFallback p D \<and> \<not> localDoesMatch p L D"
      using that unfolding B_def by (rule fallbacks_subset)
    then show ?thesis by (simp add: ps_def)
  qed
  have pB: "filter (pushed L D) B = []"
    using B_in by (auto simp: filter_empty_conv pushed_def)
  have pK: "filter (pushed L D) K = K"
    by (simp add: K_def filter_map o_def)
  have rK: "map (refilter L D) K = K"
    using assms by (simp add: K_def)
  have nB: "filter (\<lambda>p. \<not> isDirectory p) B = B"
    using B_in by (simp add: filter_id_conv)
  have nK: "filter (\<lambda>p. \<not> isDirectory p) K = filter (\<lambda>p. localDoesMatch p L D) ps"
  proof -
    have "filter (\<lambda>p. \<not> isDirectory p) K =
        map (refilter L D) (filter (\<lambda>p. \<not> isDirectory p \<and> pushed L D p) xs)"
      by (simp add: K_def filter_map o_def conj_commute)
    also have "\<dots> = filter (\<lambda>p. \<not> isDirectory p \<and> pushed L D p) xs"
      by (rule map_idI) simp
    also have "\<dots> = filter (\<lambda>p. localDoesMatch p L D) ps"
      by (auto simp: ps_def pushed_def intro: filter_cong)
    finally show ?thesis .
  qed
  have "filterRouteLocale (K @ B) L D =
      map (refilter L D) (filter (pushed L D) K) @
      fallbacks (filter (\<lambda>p. \<not> isDirectory p) K @ filter (\<lambda>p. \<not> isDirectory p) B) L D"
    by (simp add: filterRouteLocale_fallbacks pB)
  also have "\<dots> = K @ fallbacks (filter (\<lambda>p. localDoesMatch p L D) ps @ B) L D"
    by (simp only: pK rK nK nB)
  also have "\<dots> = K @ B"
    unfolding B_def by (simp only: fallbacks_again)
  finally show ?thesis by (simp only: F)
qed

lemma refilter_again: "refilter L D (refilter L D x) = refilter L D x"
proof (induction x)
  case (Directory n r ch)
  have "filterRouteLocale (filterRouteLocale ch L D) L D = filterRouteLocale ch L D"
    by (rule filterRouteLocale_again) (rule Directory)
  then show ?case by simp
qed simp_all

lemma filterRouteLocale_idem:
  "filterRouteLocale (filterRouteLocale T L D) L D = filterRouteLocale T L D"
  by (rule filterRouteLocale_again) (rule refilter_again)

lemma candidateOf_alt:
  "candidateOf ps L D n =
     (if list_ex (\<lambda>p. name p = n \<and> localDoesMatch p L D) ps then None
      else lastOpt (filter (\<lambda>p. name p = n \<and> canFallback p D) ps))"
  by (simp add: candidateOf_def entryOf_def split: option.splits)

lemma map_filter_unless:
  "List.map_filter (\<lambda>n. if R n then None else g n) ks = List.map_filter g (filter (\<lambda>n. \<not> R n) ks)"
  by (induction ks) (simp_all add: map_filter_simps split: option.splits)

lemma fallbacks_unresolved:
  "fallbacks ps L D =
     List.map_filter (\<lambda>n. lastOpt (filter (\<lambda>p. name p = n \<and> canFallback p D) ps))
       (keyOrder (firstSeen (map name
          (filter (\<lambda>p. canFallback p D \<and> \<not> list_ex (\<lambda>q. name q = name p \<and> localDoesMatch q L D) ps) ps))))"
proof -
  let ?R = "\<lambda>n. list_ex (\<lambda>p. name p = n \<and> localDoesMatch p L D) ps"
  let ?g = "\<lambda>n. lastOpt (filter (\<lambda>p. name p = n \<and> canFallback p D) ps)"
  have c: "candidateOf ps L D = (\<lambda>n. if ?R n then None else ?g n)"
    by (simp add: fun_eq_iff candidateOf_alt)
  have "filter (\<lambda>n. \<not> ?R n) (map name (filter (touches L D) ps)) =
        map name (filter (\<lambda>p. \<not> ?R (name p) \<and> touches L D p) ps)"
    by (simp add: filter_map o_def conj_commute)
  also have "filter (\<lambda>p. \<not> ?R (name p) \<and> touches L D p) ps =
        filter (\<lambda>p. canFallback p D \<and> \<not> ?R (name p)) ps"
    by (rule filter_cong) (auto simp: touches_def list_ex_iff)
  finally have k: "filter (\<lambda>n. \<not> ?R n) (map name (filter (touches L D) ps)) =
        map name (filter (\<lambda>p. canFallback p D \<and> \<not> ?R (name p)) ps)" .
  show ?thesis
    unfolding fallbacks_eq c map_filter_unless keyOrder_filter firstSeen_filter k ..
qed


lemma fallbacks_unresolved_names:
  assumes "p \<in> set (fallbacks ps L D)" and "q \<in> set ps" and "name q = name p"
  shows "\<not> localDoesMatch q L D"
proof -
  from assms(1) obtain n where c: "candidateOf ps L D n = Some p"
    by (auto simp: fallbacks_eq List.map_filter_def)
  have "name p = n" using c by (rule candidateOf_SomeD(2))
  then show ?thesis using candidateOf_SomeD(5) [OF c assms(2)] assms(3) by simp
qed

lemma filterRouteLocale_flat:
  assumes "list_all (\<lambda>p. \<not> isDirectory p) xs"
  shows "filterRouteLocale xs L D = filter (\<lambda>p. localDoesMatch p L D) xs @ fallbacks xs L D"
proof -
  have nd: "\<And>p. p \<in> set xs \<Longrightarrow> \<not> isDirectory p"
    using assms by (simp add: list_all_iff)
  have 1: "filter (\<lambda>p. \<not> isDirectory p) xs = xs"
    using nd by (simp add: filter_id_conv)
  have 2: "filter (pushed L D) xs = filter (\<lambda>p. localDoesMatch p L D) xs"
    using nd by (auto simp: pushed_def intro: filter_cong)
  have 3: "map (refilter L D) (filter (\<lambda>p. localDoesMatch p L D) xs) = filter (\<lambda>p. localDoesMatch p L D) xs"
    using nd by (intro map_idI) simp
  show ?thesis
    by (simp only: filterRouteLocale_fallbacks 1 2 3)
qed

text \<open>Unfolding the loops on a concrete page map, and the specification's wording.\<close>

lemmas filter_eval =
  filterRouteLocale.simps localDoesMatch_def falsy_def isDefaultLocale_def recordPage_def
  canFallback_def fallbackList_def ownKeys_def keyOrder_def isArrayIndex_def isDigit_def
  indexValue_def List.map_filter_def

lemmas spec_eval =
  claimedFilter_def amendedFilter_def unresolvedNames_def lastCandidate_def specExact_def
  specCanFallback_def firstSeen_def lastOpt_def List.map_filter_def keyOrder_def isArrayIndex_def
  isDigit_def indexValue_def

subsection \<open>The pages of one directory\<close>

text \<open>
  C1, as stated: for the pages of one directory the filter returns the exact matches in
  their order, then for every name without an exact match its last fallback candidate,
  the fallbacks in the order in which their names were first introduced; and for the
  siblings \<open>[a.md, a.en.md, a.fr.md]\<close> with default locale \<open>en\<close> it returns \<open>a.fr.md\<close> alone
  for \<open>fr\<close> and \<open>a.en.md\<close> alone for \<open>de\<close>.

  The order of the fallbacks is not the order of introduction. For the siblings
  \<open>[about.md, 404.md]\<close>, request locale \<open>fr\<close> and default locale \<open>en\<close>, both pages are
  fallbacks, and the second loop visits the key \<open>404\<close>, an array index, before the key
  \<open>about\<close>: the result is \<open>[404.md, about.md]\<close>.
\<close>

theorem filterRouteLocale_siblings_counterexample:
  "filterRouteLocale siblingsB (Some ''fr'') (Some ''en'') =
     [Page ''404'' ''/404'' None None, Page ''about'' ''/about'' None None] \<and>
   claimedFilter siblingsB (Some ''fr'') (Some ''en'') =
     [Page ''about'' ''/about'' None None, Page ''404'' ''/404'' None None] \<and>
   filterRouteLocale siblingsB (Some ''fr'') (Some ''en'') \<noteq> claimedFilter siblingsB (Some ''fr'') (Some ''en'')"
proof -
  have 1: "filterRouteLocale siblingsB (Some ''fr'') (Some ''en'') =
     [Page ''404'' ''/404'' None None, Page ''about'' ''/about'' None None]"
    by (simp add: siblingsB_def filter_eval)
  have 2: "claimedFilter siblingsB (Some ''fr'') (Some ''en'') =
     [Page ''about'' ''/about'' None None, Page ''404'' ''/404'' None None]"
    by (simp add: siblingsB_def spec_eval)
  show ?thesis unfolding 1 2 by simp
qed

text \<open>
  C1, amended: for the pages of one directory, with locale tags that are not empty when
  present, a request locale that is absent or not empty, and no page named \<open>__proto__\<close>,
  the filter returns the exact matches in their order, then for every name without an
  exact match its last fallback candidate, the fallbacks for names that are array
  indices first, in ascending numeric order, and the other fallbacks after them in the
  order in which their names were first introduced. The two examples of the claim hold.
\<close>

theorem filterRouteLocale_siblings:
  assumes "list_all (\<lambda>p. \<not> isDirectory p) siblings"
    and "list_all (\<lambda>p. nodeLocale p \<noteq> Some []) siblings"
    and "L \<noteq> Some []"
    and "list_all plainName siblings"
  shows "filterRouteLocale siblings L D = amendedFilter siblings L D \<and>
         filterRouteLocale siblingsA (Some ''fr'') (Some ''en'') = [Page ''a'' ''/a'' None (Some ''fr'')] \<and>
         filterRouteLocale siblingsA (Some ''de'') (Some ''en'') = [Page ''a'' ''/a'' None (Some ''en'')]"
proof -
  have ex: "localDoesMatch p L D = specExact L D p" if "p \<in> set siblings" for p
    using that assms(2,3)
    by (auto simp: localDoesMatch_def specExact_def falsy_def isDefaultLocale_def list_all_iff)
  have fb: "canFallback p D = specCanFallback D p" if "p \<in> set siblings" for p
    using that assms(2)
    by (auto simp: canFallback_def specCanFallback_def falsy_def list_all_iff)
  have res: "list_ex (\<lambda>q. name q = n \<and> localDoesMatch q L D) siblings \<longleftrightarrow>
             n \<in> set (map name (filter (specExact L D) siblings))" for n
    using ex by (auto simp: list_ex_iff)
  have 1: "filter (\<lambda>p. localDoesMatch p L D) siblings = filter (specExact L D) siblings"
    using ex by (auto intro: filter_cong)
  have 2: "filter (\<lambda>p. canFallback p D \<and> \<not> list_ex (\<lambda>q. name q = name p \<and> localDoesMatch q L D) siblings) siblings =
           filter (\<lambda>p. specCanFallback D p \<and> name p \<notin> set (map name (filter (specExact L D) siblings))) siblings"
    unfolding res using fb by (auto intro: filter_cong)
  have 3: "(\<lambda>n. lastOpt (filter (\<lambda>p. name p = n \<and> canFallback p D) siblings)) = lastCandidate siblings D"
    using fb by (auto simp: fun_eq_iff lastCandidate_def intro!: arg_cong [where f = lastOpt] filter_cong)
  have "filterRouteLocale siblings L D = amendedFilter siblings L D"
    unfolding filterRouteLocale_flat [OF assms(1)] fallbacks_unresolved 1 2 3
    by (simp add: amendedFilter_def unresolvedNames_def)
  moreover have "filterRouteLocale siblingsA (Some ''fr'') (Some ''en'') = [Page ''a'' ''/a'' None (Some ''fr'')]"
    by (simp add: siblingsA_def filter_eval)
  moreover have "filterRouteLocale siblingsA (Some ''de'') (Some ''en'') = [Page ''a'' ''/a'' None (Some ''en'')]"
    by (simp add: siblingsA_def filter_eval)
  ultimately show ?thesis by simp
qed

theorem filterRouteLocale_siblings_witness:
  "list_all (\<lambda>p. \<not> isDirectory p) siblingsB \<and>
   list_all (\<lambda>p. nodeLocale p \<noteq> Some []) siblingsB \<and>
   Some ''fr'' \<noteq> Some [] \<and>
   list_all plainName siblingsB \<and>
   amendedFilter siblingsB (Some ''fr'') (Some ''en'') =
     [Page ''404'' ''/404'' None None, Page ''about'' ''/about'' None None] \<and>
   filterRouteLocale siblingsB (Some ''fr'') (Some ''en'') = amendedFilter siblingsB (Some ''fr'') (Some ''en'')"
proof -
  have a: "list_all (\<lambda>p. \<not> isDirectory p) siblingsB" by (simp add: siblingsB_def)
  have b: "list_all (\<lambda>p. nodeLocale p \<noteq> Some []) siblingsB" by (simp add: siblingsB_def)
  have c: "Some ''fr'' \<noteq> Some []" by simp
  have d: "list_all plainName siblingsB" by (simp add: siblingsB_def)
  have e: "amendedFilter siblingsB (Some ''fr'') (Some ''en'') =
     [Page ''404'' ''/404'' None None, Page ''about'' ''/about'' None None]"
    by (simp add: siblingsB_def spec_eval)
  show ?thesis
    using a b c d e filterRouteLocale_siblings [OF a b c d, of "Some ''en''"] by simp
qed

subsection \<open>Idempotence\<close>

text \<open>
  C2: filtering a page map that is already filtered for the same request locale and
  default locale returns it unchanged, at every depth.

  The code breaks this for a page named \<open>__proto__\<close>. For the page map of the one file
  \<open>__proto__.md\<close>, request locale \<open>fr\<close> and default locale \<open>en\<close>, the assignment
  \<open>fallbackPages['__proto__'] = page\<close> does not create a property: it makes the page the
  prototype of the table, whose inherited properties \<open>for ... in\<close> then visits, so that the
  result is the two strings \<open>'__proto__'\<close> and \<open>'/__proto__'\<close>, the name and the route of
  the page; filtering that result again gives \<open>['/__proto__']\<close>. Such page maps are
  outside the model, whose table is a dictionary. On the page maps of the model, with
  no page named \<open>__proto__\<close>, the filter is idempotent:
\<close>

theorem filterRouteLocale_idempotent:
  assumes "list_all plainName T"
  shows "filterRouteLocale (filterRouteLocale T L D) L D = filterRouteLocale T L D"
  by (rule filterRouteLocale_idem)

theorem filterRouteLocale_idempotent_witness:
  "list_all plainName samplePageMap \<and>
   filterRouteLocale samplePageMap (Some ''fr'') (Some ''en'') =
     [Directory ''docs'' ''/docs''
        [Page ''intro'' ''/docs/intro'' None (Some ''fr''),
         Page ''404'' ''/docs/404'' None None,
         MetaFile ''meta.json'' (JObj [(''intro'', JStr ''Introduction'')]) (Some ''en'')],
      Page ''index'' ''/'' None (Some ''fr''),
      Page ''404'' ''/404'' None (Some ''en''),
      Page ''about'' ''/about'' None None] \<and>
   filterRouteLocale (filterRouteLocale samplePageMap (Some ''fr'') (Some ''en'')) (Some ''fr'') (Some ''en'') =
     filterRouteLocale samplePageMap (Some ''fr'') (Some ''en'')"
proof -
  have p: "list_all plainName samplePageMap"
    by (simp add: samplePageMap_def)
  have v: "filterRouteLocale samplePageMap (Some ''fr'') (Some ''en'') =
     [Directory ''docs'' ''/docs''
        [Page ''intro'' ''/docs/intro'' None (Some ''fr''),
         Page ''404'' ''/docs/404'' None None,
         MetaFile ''meta.json'' (JObj [(''intro'', JStr ''Introduction'')]) (Some ''en'')],
      Page ''index'' ''/'' None (Some ''fr''),
      Page ''404'' ''/404'' None (Some ''en''),
      Page ''about'' ''/about'' None None]"
    by (simp add: samplePageMap_def filter_eval)
  show ?thesis
    using p v filterRouteLocale_idempotent [OF p, of "Some ''fr''" "Some ''en''"] by simp
qed

subsection \<open>Directories\<close>

text \<open>
  C9, as stated: every directory of the input appears in the output in its original
  position. For the page \<open>about.md\<close> followed by the directory \<open>docs\<close>, request locale \<open>fr\<close>
  and default locale \<open>en\<close>, the page is no exact match and is appended as a fallback:
  the directory, second in the input, is first in the output, and the second node of
  the output is the page.
\<close>

theorem filterRouteLocale_keeps_directories_counterexample:
  "siblingsC ! 1 = Directory ''docs'' ''/docs'' [Page ''intro'' ''/docs/intro'' None (Some ''fr'')] \<and>
   filterRouteLocale siblingsC (Some ''fr'') (Some ''en'') =
     [Directory ''docs'' ''/docs'' [Page ''intro'' ''/docs/intro'' None (Some ''fr'')],
      Page ''about'' ''/about'' None None] \<and>
   filterRouteLocale siblingsC (Some ''fr'') (Some ''en'') ! 1 = Page ''about'' ''/about'' None None"
  by (simp add: siblingsC_def filter_eval)

lemma filterRouteLocale_directory_index:
  assumes i: "i < length pageMap" and dir: "isDirectory (pageMap ! i)"
  shows "filterRouteLocale pageMap locale defaultLocale ! length (filter (pushed locale defaultLocale) (take i pageMap)) =
           refilter locale defaultLocale (pageMap ! i)"
proof -
  let ?P = "pushed locale defaultLocale" and ?r = "refilter locale defaultLocale"
  let ?fb = "fallbacks (filter (\<lambda>p. \<not> isDirectory p) pageMap) locale defaultLocale"
  have "pageMap = take i pageMap @ pageMap ! i # drop (Suc i) pageMap"
    using i by (simp add: id_take_nth_drop)
  then have "filter ?P pageMap = filter ?P (take i pageMap @ pageMap ! i # drop (Suc i) pageMap)"
    by simp
  also have "\<dots> = filter ?P (take i pageMap) @ pageMap ! i # filter ?P (drop (Suc i) pageMap)"
    using dir by (simp add: pushed_def)
  finally have "filterRouteLocale pageMap locale defaultLocale =
      map ?r (filter ?P (take i pageMap)) @ ?r (pageMap ! i) # (map ?r (filter ?P (drop (Suc i) pageMap)) @ ?fb)"
    by (simp only: filterRouteLocale_fallbacks [of pageMap] map_append list.map append_assoc append_Cons)
  then show ?thesis
    using nth_append_length [of "map ?r (filter ?P (take i pageMap))"] by simp
qed

text \<open>
  C9, amended: the filter neither removes a directory nor reorders the nodes that the
  first loop pushes. The directories of the result are the directories of the input,
  in the same order, each with its name and route and with its children filtered
  (\<^const>\<open>refilter\<close>). The result is the directories and the exact matches of the input
  in their order (\<^const>\<open>pushed\<close>), followed by the appended fallbacks, which are pages.
  So a directory stands in the result at the index that counts the directories and
  exact matches before it in the input, which is its index in the input only when
  every node before it is one of these. The page maps are those of the model, with no
  page named \<open>__proto__\<close>.
\<close>

theorem filterRouteLocale_keeps_directories:
  assumes "list_all plainName pageMap"
  shows "filter isDirectory (filterRouteLocale pageMap locale defaultLocale) =
           map (refilter locale defaultLocale) (filter isDirectory pageMap) \<and>
         (\<exists>appended.
            filterRouteLocale pageMap locale defaultLocale =
              map (refilter locale defaultLocale) (filter (pushed locale defaultLocale) pageMap) @ appended \<and>
            list_all (\<lambda>p. \<not> isDirectory p) appended) \<and>
         (\<forall>i. i < length pageMap \<and> isDirectory (pageMap ! i) \<longrightarrow>
            filterRouteLocale pageMap locale defaultLocale !
              length (filter (pushed locale defaultLocale) (take i pageMap)) =
            refilter locale defaultLocale (pageMap ! i))"
proof -
  let ?fb = "fallbacks (filter (\<lambda>p. \<not> isDirectory p) pageMap) locale defaultLocale"
  have page: "\<not> isDirectory p" if "p \<in> set ?fb" for p
  proof -
    have "p \<in> set (filter (\<lambda>p. \<not> isDirectory p) pageMap)"
      using fallbacks_subset [OF that] by (rule conjunct1)
    then show ?thesis by simp
  qed
  have pages: "list_all (\<lambda>p. \<not> isDirectory p) ?fb"
    unfolding list_all_iff by (rule ballI) (rule page)
  have "filter isDirectory ?fb = []"
    unfolding filter_empty_conv using page by blast
  moreover have "filter isDirectory (map (refilter locale defaultLocale) (filter (pushed locale defaultLocale) pageMap)) =
      map (refilter locale defaultLocale) (filter isDirectory pageMap)"
    by (auto simp: filter_map o_def pushed_def intro!: arg_cong [where f = "map (refilter locale defaultLocale)"] filter_cong)
  ultimately have 1: "filter isDirectory (filterRouteLocale pageMap locale defaultLocale) =
      map (refilter locale defaultLocale) (filter isDirectory pageMap)"
    by (simp only: filterRouteLocale_fallbacks filter_append append_Nil2)
  have 2: "filterRouteLocale pageMap locale defaultLocale =
      map (refilter locale defaultLocale) (filter (pushed locale defaultLocale) pageMap) @ ?fb"
    by (rule filterRouteLocale_fallbacks)
  from 2 pages have 3: "\<exists>appended.
      filterRouteLocale pageMap locale defaultLocale =
        map (refilter locale defaultLocale) (filter (pushed locale defaultLocale) pageMap) @ appended \<and>
      list_all (\<lambda>p. \<not> isDirectory p) appended"
    by (intro exI [of _ ?fb] conjI)
  have 4: "\<forall>i. i < length pageMap \<and> isDirectory (pageMap ! i) \<longrightarrow>
      filterRouteLocale pageMap locale defaultLocale !
        length (filter (pushed locale defaultLocale) (take i pageMap)) =
      refilter locale defaultLocale (pageMap ! i)"
    by (intro allI impI filterRouteLocale_directory_index) simp_all
  from 1 3 4 show ?thesis by (intro conjI)
qed

theorem filterRouteLocale_keeps_directories_witness:
  "list_all plainName samplePageMap \<and>
   filter isDirectory (filterRouteLocale samplePageMap (Some ''fr'') (Some ''en'')) =
     [Directory ''docs'' ''/docs''
        [Page ''intro'' ''/docs/intro'' None (Some ''fr''),
         Page ''404'' ''/docs/404'' None None,
         MetaFile ''meta.json'' (JObj [(''intro'', JStr ''Introduction'')]) (Some ''en'')]] \<and>
   (2::nat) < length samplePageMap \<and> isDirectory (samplePageMap ! 2) \<and>
   length (filter (pushed (Some ''fr'') (Some ''en'')) (take 2 samplePageMap)) = 0 \<and>
   filterRouteLocale samplePageMap (Some ''fr'') (Some ''en'') ! 0 =
     Directory ''docs'' ''/docs''
        [Page ''intro'' ''/docs/intro'' None (Some ''fr''),
         Page ''404'' ''/docs/404'' None None,
         MetaFile ''meta.json'' (JObj [(''intro'', JStr ''Introduction'')]) (Some ''en'')]"
proof -
  have p: "list_all plainName samplePageMap"
    by (simp add: samplePageMap_def)
  note T = filterRouteLocale_keeps_directories [OF p, of "Some ''fr''" "Some ''en''"]
  have 1: "filter isDirectory (filterRouteLocale samplePageMap (Some ''fr'') (Some ''en'')) =
      map (refilter (Some ''fr'') (Some ''en'')) (filter isDirectory samplePageMap)"
    by (rule T [THEN conjunct1])
  have 2: "map (refilter (Some ''fr'') (Some ''en'')) (filter isDirectory samplePageMap) =
     [Directory ''docs'' ''/docs''
        [Page ''intro'' ''/docs/intro'' None (Some ''fr''),
         Page ''404'' ''/docs/404'' None None,
         MetaFile ''meta.json'' (JObj [(''intro'', JStr ''Introduction'')]) (Some ''en'')]]"
    by (simp add: samplePageMap_def filter_eval)
  have 3: "(2::nat) < length samplePageMap" "isDirectory (samplePageMap ! 2)"
    by (simp_all add: samplePageMap_def)
  have 4: "length (filter (pushed (Some ''fr'') (Some ''en'')) (take 2 samplePageMap)) = 0"
    by (simp add: samplePageMap_def pushed_def localDoesMatch_def falsy_def isDefaultLocale_def)
  have "filterRouteLocale samplePageMap (Some ''fr'') (Some ''en'') !
          length (filter (pushed (Some ''fr'') (Some ''en'')) (take 2 samplePageMap)) =
        refilter (Some ''fr'') (Some ''en'') (samplePageMap ! 2)"
    using T [THEN conjunct2, THEN conjunct2] 3 by blast
  moreover have "refilter (Some ''fr'') (Some ''en'') (samplePageMap ! 2) =
     Directory ''docs'' ''/docs''
        [Page ''intro'' ''/docs/intro'' None (Some ''fr''),
         Page ''404'' ''/docs/404'' None None,
         MetaFile ''meta.json'' (JObj [(''intro'', JStr ''Introduction'')]) (Some ''en'')]"
    by (simp add: samplePageMap_def filter_eval)
  ultimately have 5: "filterRouteLocale samplePageMap (Some ''fr'') (Some ''en'') ! 0 =
     Directory ''docs'' ''/docs''
        [Page ''intro'' ''/docs/intro'' None (Some ''fr''),
         Page ''404'' ''/docs/404'' None None,
         MetaFile ''meta.json'' (JObj [(''intro'', JStr ''Introduction'')]) (Some ''en'')]"
    by (simp only: 4)
  show ?thesis
    using p 1 2 3 4 5 by (intro conjI) simp_all
qed

subsection \<open>No request locale\<close>

text \<open>
  C10: with a request locale that is absent or empty, and a default locale that is a
  tag, the exact matches are the locale-less nodes. A node of the default locale is not
  an exact match; when the result holds a page of the default locale, that page is a
  fallback and no page of its name in the directory is locale-less; a directory stands
  in the result with its children filtered in the same way. Filtering without a
  request locale differs from filtering for the default locale: of a locale-less page
  and a default-locale page of the same name, the first keeps the locale-less page only
  and the second keeps both.

  The code breaks this for pages named \<open>__proto__\<close>. For the two files \<open>__proto__.md\<close> and
  \<open>__proto__.en.md\<close>, no request locale and the default locale \<open>en\<close>, the exact match
  \<open>__proto__.md\<close> is pushed and \<open>fallbackPages['__proto__'] = null\<close> removes the prototype
  of the table instead of marking the name as resolved; the name then reads as
  \<open>undefined\<close>, \<open>__proto__.en.md\<close> is stored as an own property and appended, and the
  result holds the default-locale page beside its locale-less sibling. Such page maps
  are outside the model. On the page maps of the model, with no page named
  \<open>__proto__\<close>:
\<close>

theorem filterRouteLocale_without_locale:
  assumes "falsy locale" and "defaultLocale = Some d" and "d \<noteq> []"
    and "list_all plainName pageMap"
  shows "(\<forall>page. localDoesMatch page locale defaultLocale \<longleftrightarrow> falsy (nodeLocale page)) \<and>
         (\<forall>page. nodeLocale page = defaultLocale \<longrightarrow> \<not> localDoesMatch page locale defaultLocale) \<and>
         (\<forall>p. p \<in> set (filterRouteLocale pageMap locale defaultLocale) \<and> \<not> isDirectory p \<and>
               nodeLocale p = defaultLocale \<longrightarrow>
               p \<in> set (fallbacks (filter (\<lambda>q. \<not> isDirectory q) pageMap) locale defaultLocale) \<and>
               (\<forall>q. q \<in> set pageMap \<and> \<not> isDirectory q \<and> name q = name p \<longrightarrow> \<not> falsy (nodeLocale q))) \<and>
         (\<forall>n r ch. Directory n r ch \<in> set pageMap \<longrightarrow>
            Directory n r (filterRouteLocale ch locale defaultLocale) \<in>
              set (filterRouteLocale pageMap locale defaultLocale)) \<and>
         filterRouteLocale [Page ''a'' ''/a'' None None, Page ''a'' ''/a'' None defaultLocale] locale defaultLocale =
           [Page ''a'' ''/a'' None None] \<and>
         filterRouteLocale [Page ''a'' ''/a'' None None, Page ''a'' ''/a'' None defaultLocale] defaultLocale defaultLocale =
           [Page ''a'' ''/a'' None None, Page ''a'' ''/a'' None defaultLocale]"
proof -
  have m: "localDoesMatch page locale defaultLocale \<longleftrightarrow> falsy (nodeLocale page)" for page
    using assms(1) by (auto simp: localDoesMatch_def isDefaultLocale_def falsy_def)
  have nf: "\<not> falsy defaultLocale"
    using assms(2,3) by (simp add: falsy_def)
  have n: "nodeLocale page = defaultLocale \<longrightarrow> \<not> localDoesMatch page locale defaultLocale" for page
    using m nf by auto
  have f: "p \<in> set (fallbacks (filter (\<lambda>q. \<not> isDirectory q) pageMap) locale defaultLocale) \<and>
           (\<forall>q. q \<in> set pageMap \<and> \<not> isDirectory q \<and> name q = name p \<longrightarrow> \<not> falsy (nodeLocale q))"
    if p: "p \<in> set (filterRouteLocale pageMap locale defaultLocale)" "\<not> isDirectory p"
      "nodeLocale p = defaultLocale" for p
  proof -
    let ?ps = "filter (\<lambda>q. \<not> isDirectory q) pageMap"
    have "p \<notin> set (map (refilter locale defaultLocale) (filter (pushed locale defaultLocale) pageMap))"
    proof
      assume "p \<in> set (map (refilter locale defaultLocale) (filter (pushed locale defaultLocale) pageMap))"
      then obtain x where x: "x \<in> set pageMap" "pushed locale defaultLocale x" "p = refilter locale defaultLocale x"
        by auto
      then have "\<not> isDirectory x" using p(2) by simp
      then have "p = x" "localDoesMatch x locale defaultLocale"
        using x by (simp_all add: pushed_def)
      then show False using n p(3) by blast
    qed
    then have in_fb: "p \<in> set (fallbacks ?ps locale defaultLocale)"
      using p(1) by (simp add: filterRouteLocale_fallbacks)
    have "\<not> falsy (nodeLocale q)" if "q \<in> set pageMap" "\<not> isDirectory q" "name q = name p" for q
    proof -
      have "q \<in> set ?ps" using that by simp
      then have "\<not> localDoesMatch q locale defaultLocale"
        using fallbacks_unresolved_names [OF in_fb] that(3) by blast
      then show ?thesis using m by simp
    qed
    then show ?thesis using in_fb by blast
  qed
  have 1: "filterRouteLocale [Page ''a'' ''/a'' None None, Page ''a'' ''/a'' None defaultLocale] locale defaultLocale =
           [Page ''a'' ''/a'' None None]"
    using assms(1,2,3) by (auto simp: filter_eval)
  have 2: "filterRouteLocale [Page ''a'' ''/a'' None None, Page ''a'' ''/a'' None defaultLocale] defaultLocale defaultLocale =
           [Page ''a'' ''/a'' None None, Page ''a'' ''/a'' None defaultLocale]"
    using assms(2,3) by (auto simp: filter_eval)
  have g: "Directory n r (filterRouteLocale ch locale defaultLocale) \<in>
             set (filterRouteLocale pageMap locale defaultLocale)"
    if "Directory n r ch \<in> set pageMap" for n r ch
  proof -
    have "Directory n r ch \<in> set (filter (pushed locale defaultLocale) pageMap)"
      using that by (simp add: pushed_def)
    then have "refilter locale defaultLocale (Directory n r ch) \<in>
        set (map (refilter locale defaultLocale) (filter (pushed locale defaultLocale) pageMap))"
      unfolding set_map by (rule imageI)
    then show ?thesis
      by (simp add: filterRouteLocale_fallbacks [of pageMap])
  qed
  show ?thesis using m n f g 1 2 by blast
qed

theorem filterRouteLocale_without_locale_witness:
  "falsy None \<and> Some ''en'' = Some ''en'' \<and> ''en'' \<noteq> [] \<and> list_all plainName samplePageMap \<and>
   Page ''404'' ''/404'' None (Some ''en'') \<in> set (filterRouteLocale samplePageMap None (Some ''en'')) \<and>
   Page ''404'' ''/404'' None (Some ''en'') \<in>
     set (fallbacks (filter (\<lambda>q. \<not> isDirectory q) samplePageMap) None (Some ''en'')) \<and>
   \<not> localDoesMatch (Page ''404'' ''/404'' None (Some ''en'')) None (Some ''en'') \<and>
   Directory ''docs'' ''/docs''
     [Page ''404'' ''/docs/404'' None None,
      MetaFile ''meta.json'' (JObj [(''intro'', JStr ''Introduction'')]) (Some ''en''),
      Page ''intro'' ''/docs/intro'' None (Some ''en'')] \<in>
     set (filterRouteLocale samplePageMap None (Some ''en'')) \<and>
   filterRouteLocale [Page ''a'' ''/a'' None None, Page ''a'' ''/a'' None (Some ''en'')] None (Some ''en'') =
     [Page ''a'' ''/a'' None None] \<and>
   filterRouteLocale [Page ''a'' ''/a'' None None, Page ''a'' ''/a'' None (Some ''en'')] (Some ''en'') (Some ''en'') =
     [Page ''a'' ''/a'' None None, Page ''a'' ''/a'' None (Some ''en'')]"
proof -
  have a: "falsy None" by (simp add: falsy_def)
  have b: "Some ''en'' = Some ''en''" by simp
  have c: "''en'' \<noteq> []" by simp
  have d: "list_all plainName samplePageMap" by (simp add: samplePageMap_def)
  have e: "Page ''404'' ''/404'' None (Some ''en'') \<in> set (filterRouteLocale samplePageMap None (Some ''en''))"
    by (simp add: samplePageMap_def filter_eval)
  note T = filterRouteLocale_without_locale [OF a b c d]
  let ?p = "Page ''404'' ''/404'' None (Some ''en'')"
  have f: "\<not> localDoesMatch ?p None (Some ''en'')"
    using T by (simp add: falsy_def)
  have g: "?p \<in> set (fallbacks (filter (\<lambda>q. \<not> isDirectory q) samplePageMap) None (Some ''en''))"
    using T e by simp
  let ?ch = "[MetaFile ''meta.json'' (JObj [(''intro'', JStr ''Introduction'')]) (Some ''en''),
              Page ''intro'' ''/docs/intro'' None (Some ''en''),
              Page ''intro'' ''/docs/intro'' None (Some ''fr''),
              Page ''404'' ''/docs/404'' None None]"
  have "Directory ''docs'' ''/docs'' ?ch \<in> set samplePageMap"
    by (simp add: samplePageMap_def)
  then have "Directory ''docs'' ''/docs'' (filterRouteLocale ?ch None (Some ''en'')) \<in>
      set (filterRouteLocale samplePageMap None (Some ''en''))"
    using T by blast
  moreover have "filterRouteLocale ?ch None (Some ''en'') =
     [Page ''404'' ''/docs/404'' None None,
      MetaFile ''meta.json'' (JObj [(''intro'', JStr ''Introduction'')]) (Some ''en''),
      Page ''intro'' ''/docs/intro'' None (Some ''en'')]"
    by (simp add: filter_eval)
  ultimately have h: "Directory ''docs'' ''/docs''
     [Page ''404'' ''/docs/404'' None None,
      MetaFile ''meta.json'' (JObj [(''intro'', JStr ''Introduction'')]) (Some ''en''),
      Page ''intro'' ''/docs/intro'' None (Some ''en'')] \<in>
     set (filterRouteLocale samplePageMap None (Some ''en''))"
    by (simp only:)
  have i: "filterRouteLocale [Page ''a'' ''/a'' None None, Page ''a'' ''/a'' None (Some ''en'')] None (Some ''en'') =
     [Page ''a'' ''/a'' None None]"
    using T by blast
  have j: "filterRouteLocale [Page ''a'' ''/a'' None None, Page ''a'' ''/a'' None (Some ''en'')] (Some ''en'') (Some ''en'') =
     [Page ''a'' ''/a'' None None, Page ''a'' ''/a'' None (Some ''en'')]"
    using T by blast
  show ?thesis
    using a c d e f g h i j by (intro conjI) simp_all
qed

section \<open>Properties of the sibling locale analyzer\<close>

lemma analyzeLoop_append_files:
  assumes "analyzeLoop re D xs d0 = Inr d"
  shows "files d = files d0 @ map variantOf (matched re xs) \<and>
         ssr d = (ssr d0 \<or> list_ex vssr (map variantOf (matched re xs))) \<and>
         ssg d = (ssg d0 \<or> list_ex vssg (map variantOf (matched re xs)))"
  using assms
proof (induction xs arbitrary: d0)
  case Nil
  then show ?case by (simp add: matched_def)
next
  case (Cons e xs)
  obtain fname content where e: "e = (fname, content)" by (cases e)
  show ?case
  proof (cases "re fname")
    case False
    then show ?thesis using Cons e by (simp add: matched_def)
  next
    case True
    then obtain src where c: "content = Some src"
      using Cons.prems e by (cases content) simp_all
    have "analyzeLoop re D xs (analyzeFile D fname src d0) = Inr d"
      using Cons.prems e True c by simp
    from Cons.IH [OF this] show ?thesis
      using True e c by (auto simp: matched_def analyzeFile_def variantOf_def Let_def)
  qed
qed

lemma isDefaultAt_step:
  assumes "isDefaultAt D (files d0) (defaultIndex d0)"
  shows "isDefaultAt D (files (analyzeFile D fname src d0)) (defaultIndex (analyzeFile D fname src d0))"
proof (cases "getLocaleFromFilename fname = D")
  case True
  then show ?thesis
    by (simp add: analyzeFile_def Let_def isDefaultAt_def)
next
  case False
  then show ?thesis
    using assms
    by (auto simp: analyzeFile_def Let_def isDefaultAt_def nth_append split: if_splits)
qed

lemma analyzeLoop_defaultIndex:
  assumes "analyzeLoop re D xs d0 = Inr d" and "isDefaultAt D (files d0) (defaultIndex d0)"
  shows "isDefaultAt D (files d) (defaultIndex d)"
  using assms
proof (induction xs arbitrary: d0)
  case Nil
  then show ?case by simp
next
  case (Cons e xs)
  obtain fname content where e: "e = (fname, content)" by (cases e)
  show ?case
  proof (cases "re fname")
    case False
    then show ?thesis using Cons e by simp
  next
    case True
    then obtain src where c: "content = Some src"
      using Cons.prems e by (cases content) simp_all
    have "analyzeLoop re D xs (analyzeFile D fname src d0) = Inr d"
      using Cons.prems e True c by simp
    then show ?thesis
      by (rule Cons.IH) (rule isDefaultAt_step [OF Cons.prems(2)])
  qed
qed

lemma analyzeLoop_returns:
  assumes "list_all (\<lambda>e. re (fst e) \<longrightarrow> snd e \<noteq> None) xs"
  shows "\<exists>d. analyzeLoop re D xs d0 = Inr d"
  using assms
proof (induction xs arbitrary: d0)
  case Nil
  show ?case by simp
next
  case (Cons e xs)
  then show ?case by (cases e) auto
qed

lemma analyze_sample:
  "analyzeLocalizedEntries (filenameReLiteral ''index'') sampleListing (Some ''en'') = Inr sampleDescriptor"
  by code_simp

lemma analyze_duplicate:
  "analyzeLocalizedEntries (filenameReLiteral ''index'') duplicateListing (Some ''en'') = Inr duplicateDescriptor"
  by code_simp

text \<open>
  C4: when every matching entry can be read, \<open>analyzeLocalizedEntries\<close> returns a
  descriptor; its files are the variants of the matching entries, in the order of the
  listing; its flags \<open>ssr\<close> and \<open>ssg\<close> are the disjunctions of the variants' flags; and its
  \<open>defaultIndex\<close> is the position of the variant whose locale is the default locale (the
  last one, should several have it), and 0 when no variant has the default locale.
\<close>

theorem analyzeLocalizedEntries_descriptor:
  assumes "list_all (\<lambda>e. filenameRe (fst e) \<longrightarrow> snd e \<noteq> None) listing"
  shows "\<exists>d. analyzeLocalizedEntries filenameRe listing defaultLocale = Inr d \<and>
             files d = map variantOf (matched filenameRe listing) \<and>
             ssr d = list_ex vssr (files d) \<and>
             ssg d = list_ex vssg (files d) \<and>
             isDefaultAt defaultLocale (files d) (defaultIndex d)"
proof -
  let ?d0 = "\<lparr> ssr = False, ssg = False, files = [], defaultIndex = 0 \<rparr>"
  obtain d where d: "analyzeLoop filenameRe defaultLocale listing ?d0 = Inr d"
    using analyzeLoop_returns [OF assms] by blast
  have 1: "files d = map variantOf (matched filenameRe listing)"
    and 2: "ssr d = list_ex vssr (map variantOf (matched filenameRe listing))"
    and 3: "ssg d = list_ex vssg (map variantOf (matched filenameRe listing))"
    using analyzeLoop_append_files [OF d] by simp_all
  have 4: "isDefaultAt defaultLocale (files d) (defaultIndex d)"
    by (rule analyzeLoop_defaultIndex [OF d]) (simp add: isDefaultAt_def)
  show ?thesis
    using d 1 2 3 4 by (simp add: analyzeLocalizedEntries_def)
qed

theorem analyzeLocalizedEntries_descriptor_witness:
  "list_all (\<lambda>e. filenameReLiteral ''index'' (fst e) \<longrightarrow> snd e \<noteq> None) sampleListing \<and>
   analyzeLocalizedEntries (filenameReLiteral ''index'') sampleListing (Some ''en'') = Inr sampleDescriptor \<and>
   isDefaultAt (Some ''en'') (files sampleDescriptor) 1 \<and>
   isDefaultAt (Some ''zh'') (files sampleDescriptor) 0"
proof -
  have h: "list_all (\<lambda>e. filenameReLiteral ''index'' (fst e) \<longrightarrow> snd e \<noteq> None) sampleListing"
    by code_simp
  from analyzeLocalizedEntries_descriptor [OF h, of "Some ''en''"]
  obtain d where d: "analyzeLocalizedEntries (filenameReLiteral ''index'') sampleListing (Some ''en'') = Inr d"
    and i: "isDefaultAt (Some ''en'') (files d) (defaultIndex d)"
    by blast
  have e: "d = sampleDescriptor"
    using d by (simp add: analyze_sample)
  have 1: "isDefaultAt (Some ''en'') (files sampleDescriptor) 1"
    using i unfolding e by (simp add: sampleDescriptor_def)
  have 2: "isDefaultAt (Some ''zh'') (files sampleDescriptor) 0"
    by (simp add: isDefaultAt_def sampleDescriptor_def)
  show ?thesis
    using h d e 1 2 by simp
qed

section \<open>Properties of the locale dispatch module\<close>












lemmas dispatch_eval =
  resolvedVariant_def renderedIndex_def pageBranches_def fetchBranches_def pageBranch_def
  fetchBranch_def indexed_def localeText_def lacksFetch_def chosenFetch_def consistent_def



text \<open>
  Outside the variant groups: the directory \<open>[index.en.md, index.en.mdx]\<close> holds two
  files of the locale \<open>en\<close>, of which only the second exports \<open>getStaticProps\<close>. The two
  chains then part: the locale \<open>en\<close> renders \<open>index.en.md\<close>, the first branch of its tag,
  and the dispatcher, whose branches also test the flag, returns \<open>page_data_1(context)\<close>,
  the static fetch of \<open>index.en.mdx\<close>.
\<close>

lemma i18nEntry_duplicate_locale:
  "analyzeLocalizedEntries (filenameReLiteral ''index'') duplicateListing (Some ''en'') = Inr duplicateDescriptor \<and>
   consistent duplicateDescriptor \<and>
   \<not> variantGroup duplicateDescriptor \<and>
   resolvedVariant duplicateDescriptor (Some ''en'') = Some (Variant ''index.en.md'' (Some ''en'') False False) \<and>
   lacksFetch duplicateDescriptor (resolvedVariant duplicateDescriptor (Some ''en'')) \<and>
   runChain (fetchBranches duplicateDescriptor) (Some ''en'') = Call 1"
proof -
  have 1: "resolvedVariant duplicateDescriptor (Some ''en'') = Some (Variant ''index.en.md'' (Some ''en'') False False)"
    by (simp add: duplicateDescriptor_def dispatch_eval upt_rec)
  have 2: "runChain (fetchBranches duplicateDescriptor) (Some ''en'') = Call 1"
    by (simp add: duplicateDescriptor_def dispatch_eval upt_rec)
  have 3: "consistent duplicateDescriptor"
    by (simp add: duplicateDescriptor_def consistent_def)
  have 4: "\<not> variantGroup duplicateDescriptor"
    by (simp add: duplicateDescriptor_def variantGroup_def localeText_def)
  show ?thesis
    using 1 2 3 4 analyze_duplicate by (simp add: lacksFetch_def chosenFetch_def duplicateDescriptor_def)
qed

section \<open>Properties of the tree builder\<close>

lemma getFiles_noEmptyDirectory:
  "getFiles P G dir fs route = Inr tree \<Longrightarrow> list_all noEmptyDirectory tree"
  "getItems P G dir es route = Inr items \<Longrightarrow> list_all itemOk items"
  "getItem P G dir e route = Inr item \<Longrightarrow> itemOk item"
proof (induction P G dir fs route and P G dir es route and P G dir e route
    arbitrary: tree and items and item rule: getFiles_getItems_getItem.induct)
  case (1 P G dir route)
  then show ?case by simp
next
  case (2 P G dir entries route)
  then obtain items where i: "getItems P G dir entries route = Inr items"
    and t: "tree = List.map_filter id items"
    by (auto split: sum.splits)
  have "list_all itemOk items" using "2.IH" i by simp
  then show ?case
    unfolding t by (induction items) (auto simp: map_filter_simps itemOk_def split: option.splits)
next
  case (3 P G dir route)
  then show ?case by simp
next
  case (4 P G dir f fs route)
  then obtain item rest where a: "getItem P G dir f route = Inr item"
    and b: "getItems P G dir fs route = Inr rest" and c: "items = item # rest"
    by (auto split: sum.splits)
  show ?case using "4.IH"(1) [OF a] "4.IH"(2) [OF a b] c by simp
next
  case (5 P G dir fname sub route)
  then obtain children where a: "getFiles P G (pathResolve dir fname) sub (fileRouteOf route fname) = Inr children"
    by (auto split: sum.splits)
  have "list_all noEmptyDirectory children" using "5.IH" a by simp
  then show ?case using "5.prems" a by (auto simp: itemOk_def split: if_splits)
next
  case (6 P G dir fname content route)
  then show ?case
    by (auto simp: itemOk_def pageItem_def metaItem_def Let_def split: if_splits sum.splits option.splits prod.splits)
qed

lemma getItems_list_all2:
  "getItems P G dir es route = Inr items \<Longrightarrow>
     list_all2 (\<lambda>e item. getItem P G dir e route = Inr item) es items"
proof (induction es arbitrary: items)
  case Nil
  then show ?case by simp
next
  case (Cons e es)
  then obtain item rest where a: "getItem P G dir e route = Inr item"
    and b: "getItems P G dir es route = Inr rest" and c: "items = item # rest"
    by (auto split: sum.splits)
  show ?case using a Cons.IH [OF b] c by simp
qed

lemma getItem_Some_iff:
  assumes "getItem P G dir e route = Inr item"
  shows "item \<noteq> None \<longleftrightarrow> nonEmptySubdirectory P G dir route e \<or> isContentFile e \<or> isMetaFile e"
proof (cases e)
  case (DirEntry fname sub)
  then show ?thesis using assms by (auto split: sum.splits if_splits)
next
  case (FileEntry fname content)
  then show ?thesis using assms by (auto split: sum.splits if_splits option.splits)
qed

lemma length_map_filter_id:
  "length (List.map_filter id items) = length (filter (\<lambda>x. x \<noteq> None) items)"
  by (simp add: List.map_filter_def)

lemma length_filter_list_all2:
  assumes "list_all2 R es items" and "\<And>e item. R e item \<Longrightarrow> (Q item \<longleftrightarrow> C e)"
  shows "length (filter Q items) = length (filter C es)"
  using assms by (induction rule: list_all2_induct) auto

lemma length_filter_disj:
  assumes "\<And>x. \<not> (A x \<and> B x)"
  shows "length (filter (\<lambda>x. A x \<or> B x) xs) = length (filter A xs) + length (filter B xs)"
  using assms by (induction xs) auto

lemma kinds_disjoint:
  "\<not> (nonEmptySubdirectory P G dir route e \<and> (isContentFile e \<or> isMetaFile e))"
  "\<not> (isContentFile e \<and> isMetaFile e)"
  by (cases e; simp)+


text \<open>
  C7: in every tree that the tree builder returns no directory node, at any depth, has
  an empty sequence of children; a subdirectory whose own result is the empty sequence
  gives no node; and the number of children built for a directory is the number of its
  subdirectories whose result is not empty, plus the number of its content and script
  files, plus the number of its meta files.
\<close>

theorem getFiles_prunes_empty_directories:
  assumes "getFiles JSON_parse grayMatter dir (Some entries) route = Inr tree"
  shows "list_all noEmptyDirectory tree \<and>
         length tree =
           length (filter (nonEmptySubdirectory JSON_parse grayMatter dir route) entries) +
           length (filter isContentFile entries) + length (filter isMetaFile entries) \<and>
         (\<forall>fname sub.
            getFiles JSON_parse grayMatter (pathResolve dir fname) sub (fileRouteOf route fname) = Inr [] \<longrightarrow>
            getItem JSON_parse grayMatter dir (DirEntry fname sub) route = Inr None)"
proof -
  let ?S = "nonEmptySubdirectory JSON_parse grayMatter dir route"
  obtain items where i: "getItems JSON_parse grayMatter dir entries route = Inr items"
    and t: "tree = List.map_filter id items"
    using assms by (auto split: sum.splits)
  have 1: "list_all noEmptyDirectory tree"
    using assms by (rule getFiles_noEmptyDirectory(1))
  have "length tree = length (filter (\<lambda>e. ?S e \<or> (isContentFile e \<or> isMetaFile e)) entries)"
    unfolding t length_map_filter_id
    by (rule length_filter_list_all2 [OF getItems_list_all2 [OF i]]) (rule getItem_Some_iff)
  also have "\<dots> = length (filter ?S entries) + length (filter (\<lambda>e. isContentFile e \<or> isMetaFile e) entries)"
    by (rule length_filter_disj) (rule kinds_disjoint(1))
  also have "length (filter (\<lambda>e. isContentFile e \<or> isMetaFile e) entries) =
      length (filter isContentFile entries) + length (filter isMetaFile entries)"
    by (rule length_filter_disj) (rule kinds_disjoint(2))
  finally have 2: "length tree =
      length (filter ?S entries) + length (filter isContentFile entries) + length (filter isMetaFile entries)"
    by simp
  show ?thesis using 1 2 by simp
qed

lemma getFiles_sample:
  "getFiles sampleParse sampleMatter ''/site/pages'' (Some sampleTree) ''/'' =
     Inr [Page ''index'' ''/'' None (Some ''en''),
          MetaFile ''meta.json'' (JObj []) (Some ''en''),
          Directory ''docs'' ''/docs''
            [Page ''intro'' ''/docs/intro'' None (Some ''fr''),
             Page ''util'' ''/docs/util'' None None]]"
  by code_simp

theorem getFiles_prunes_empty_directories_witness:
  "getFiles sampleParse sampleMatter ''/site/pages'' (Some sampleTree) ''/'' =
     Inr [Page ''index'' ''/'' None (Some ''en''),
          MetaFile ''meta.json'' (JObj []) (Some ''en''),
          Directory ''docs'' ''/docs''
            [Page ''intro'' ''/docs/intro'' None (Some ''fr''),
             Page ''util'' ''/docs/util'' None None]] \<and>
   length (filter (nonEmptySubdirectory sampleParse sampleMatter ''/site/pages'' ''/'') sampleTree) +
     length (filter isContentFile sampleTree) + length (filter isMetaFile sampleTree) = 3 \<and>
   getItem sampleParse sampleMatter ''/site/pages''
     (DirEntry ''empty'' (Some [FileEntry ''README'' None, DirEntry ''deeper'' (Some [])])) ''/'' = Inr None"
proof -
  note T = getFiles_prunes_empty_directories [OF getFiles_sample]
  have e: "getFiles sampleParse sampleMatter (pathResolve ''/site/pages'' ''empty'')
      (Some [FileEntry ''README'' None, DirEntry ''deeper'' (Some [])]) (fileRouteOf ''/'' ''empty'') = Inr []"
    by code_simp
  have 1: "length (filter (nonEmptySubdirectory sampleParse sampleMatter ''/site/pages'' ''/'') sampleTree) +
     length (filter isContentFile sampleTree) + length (filter isMetaFile sampleTree) = 3"
    using T by simp
  have 2: "getItem sampleParse sampleMatter ''/site/pages''
     (DirEntry ''empty'' (Some [FileEntry ''README'' None, DirEntry ''deeper'' (Some [])])) ''/'' = Inr None"
    using T e by blast
  show ?thesis using getFiles_sample 1 2 by simp
qed



subsection \<open>The title of the active route\<close>

text \<open>
  \<open>dirMeta\<close>, when the callbacks have completed, is the mapping of the last meta file to
  settle among those that qualify. When the reads settle in the order of the listing,
  it is the authoritative meta of the specification.
\<close>

lemma dirMetaAfter_snoc:
  "dirMetaAfter P L dir (ms @ [(fname, src)]) =
     (if falsy L \<or> metaLocale fname = L then fst (parseJsonFile P src (pathResolve dir fname))
      else dirMetaAfter P L dir ms)"
  by (simp add: dirMetaAfter_def metaItem_def split: prod.splits)

lemma dirMetaAfter_last:
  assumes "L \<noteq> Some []"
  shows "dirMetaAfter P L dir ms = authoritativeMeta P L dir ms"
proof (induction ms rule: rev_induct)
  case Nil
  show ?case by (simp add: dirMetaAfter_def authoritativeMeta_def lastOpt_def)
next
  case (snoc m ms)
  obtain fname src where m: "m = (fname, src)" by (cases m)
  have f: "falsy L \<longleftrightarrow> L = None" using assms by (cases L) (simp_all add: falsy_def)
  show ?case
    using snoc.IH unfolding m dirMetaAfter_snoc
    by (simp add: authoritativeMeta_def lastOpt_def f)
qed

text \<open>
  C3: the title of the active route is read from the authoritative meta of the
  directory, the mapping of the last qualifying meta file in the order of the listing.

  The directory \<open>pages\<close> lists \<open>meta.en.json\<close>, \<open>meta.json\<close> and \<open>index.md\<close>, and the loader
  runs for \<open>index.md\<close>, which has no locale tag, so that both meta files qualify and the
  authoritative meta is the mapping of \<open>meta.json\<close>, with the title \<open>Home\<close>. When the
  reads settle in the order of the listing, \<open>dirMeta\<close> is that mapping and the title is
  \<open>Home\<close>. When the read of \<open>meta.json\<close> settles before the read of \<open>meta.en.json\<close>,
  \<open>dirMeta\<close> is the mapping of \<open>meta.en.json\<close> and the title is \<open>Welcome\<close>.
\<close>

theorem directoryTitle_settle_order:
  "getItems titleParse sampleMatter ''/site/pages'' titleListing ''/'' = Inr titleItems \<and>
   map fst (metaFiles titleListing) = [''meta.en.json'', ''meta.json''] \<and>
   getLocaleFromFilename ''/site/pages/index.md'' = None \<and>
   authoritativeMeta titleParse None ''/site/pages'' (metaFiles titleListing) =
     JObj [(''index'', JStr ''Home'')] \<and>
   dirMetaAfter titleParse None ''/site/pages'' (metaFiles titleListing) =
     JObj [(''index'', JStr ''Home'')] \<and>
   directoryTitle titleParse objectPrototype ''/site/pages/index.md'' ''/site/pages''
     (metaFiles titleListing) ''/'' titleItems (Json (JStr [])) = Inr (Json (JStr ''Home'')) \<and>
   dirMetaAfter titleParse None ''/site/pages'' (rev (metaFiles titleListing)) =
     JObj [(''index'', JStr ''Welcome'')] \<and>
   directoryTitle titleParse objectPrototype ''/site/pages/index.md'' ''/site/pages''
     (rev (metaFiles titleListing)) ''/'' titleItems (Json (JStr [])) = Inr (Json (JStr ''Welcome''))"
proof -
  have loc: "getLocaleFromFilename ''/site/pages/index.md'' = None"
    by (simp add: getLocaleFromFilename_def Let_def notDot_def)
  have ext: "\<not> extensionTest ''meta.en.json''" "\<not> extensionTest ''meta.json''" "extensionTest ''index.md''"
      "\<not> mdxExtensionTest ''meta.json''" "mdxExtensionTest ''index.md''"
    by (simp_all add: extensionTest_def mdxExtensionTest_def afterLastDot_def notDot_def)
  have meta: "metaExtensionMatch ''meta.en.json'' = Some (Some ''en'')" "metaExtensionMatch ''meta.json'' = Some None"
    by (simp_all add: metaMatchAt_def startsWith_def localeChar_def Let_def)
  have files: "metaFiles titleListing =
      [(''meta.en.json'', ''{'' @ [CHR 0x22] @ ''index'' @ [CHR 0x22] @ '': '' @ [CHR 0x22] @ ''Welcome'' @ [CHR 0x22] @ ''}''),
       (''meta.json'', ''{'' @ [CHR 0x22] @ ''index'' @ [CHR 0x22] @ '': '' @ [CHR 0x22] @ ''Home'' @ [CHR 0x22] @ ''}'')]"
    using ext meta by (simp add: metaFiles_def titleListing_def List.map_filter_def)
  have items: "getItems titleParse sampleMatter ''/site/pages'' titleListing ''/'' = Inr titleItems"
    using ext meta
    by (simp add: titleListing_def titleItems_def metaItem_def parseJsonFile_def titleParse_def
        metaLocale_def pageItem_def sampleMatter_def startsWith_def fileRouteOf_def pathJoin_def
        removeExtension_def notDot_def loc getLocaleFromFilename_def Let_def)
  have names: "map fst (metaFiles titleListing) = [''meta.en.json'', ''meta.json'']"
    by (simp add: files)
  have auth: "authoritativeMeta titleParse None ''/site/pages'' (metaFiles titleListing) =
      JObj [(''index'', JStr ''Home'')]"
    by (simp add: files authoritativeMeta_def lastOpt_def parseJsonFile_def titleParse_def)
  have fwd: "dirMetaAfter titleParse None ''/site/pages'' (metaFiles titleListing) =
      JObj [(''index'', JStr ''Home'')]"
    by (simp add: files dirMetaAfter_def metaItem_def parseJsonFile_def titleParse_def falsy_def)
  have bwd: "dirMetaAfter titleParse None ''/site/pages'' (rev (metaFiles titleListing)) =
      JObj [(''index'', JStr ''Welcome'')]"
    by (simp add: files dirMetaAfter_def metaItem_def parseJsonFile_def titleParse_def falsy_def)
  have t1: "directoryTitle titleParse objectPrototype ''/site/pages/index.md'' ''/site/pages''
      (metaFiles titleListing) ''/'' titleItems (Json (JStr [])) = Inr (Json (JStr ''Home''))"
    by (simp add: directoryTitle_def loc fwd titleItems_def titleOf_def getProperty_def ownProperty_def)
  have t2: "directoryTitle titleParse objectPrototype ''/site/pages/index.md'' ''/site/pages''
      (rev (metaFiles titleListing)) ''/'' titleItems (Json (JStr [])) = Inr (Json (JStr ''Welcome''))"
    by (simp add: directoryTitle_def loc bwd titleItems_def titleOf_def getProperty_def ownProperty_def)
  show ?thesis
    using items names loc auth fwd t1 bwd t2 by (intro conjI)
qed

end
